theory Spec2Isabelle
  imports Main
begin

section \<open>The daily sentiment cron script (cron/sentiment\_fetch.py)\<close>

text \<open>
  The script loads its configuration from the process environment (optionally
  supplemented by a file \<^verbatim>\<open>config.env\<close>), issues one authenticated POST request and
  turns the outcome into a process exit status. The model below follows the three
  functions of the script, \<^verbatim>\<open>load_config\<close>, \<^verbatim>\<open>fetch_sentiment_data\<close> and \<^verbatim>\<open>main\<close>,
  with explicit state passing for the three effects the script has: mutation of
  \<^verbatim>\<open>os.environ\<close>, log lines, and calls of \<^verbatim>\<open>requests.post\<close>.

  Conventions.
  \<^item> A Python \<^verbatim>\<open>str\<close> is a \<^typ>\<open>string\<close>; each \<^typ>\<open>char\<close> stands for one code point
    below 256. Code points from 256 on are outside the model.
  \<^item> A log line is recorded as its level, its message template and the Python values
    interpolated into the template. The rendering of a line (f-string formatting, the
    emoji, the time stamp and level added by the logging format) is not modelled.
  \<^item> An exception is recorded as its class and the datum its message is built from.
    Only subclasses of \<^verbatim>\<open>Exception\<close> are modelled, together with \<^verbatim>\<open>SystemExit\<close>,
    which \<^verbatim>\<open>except Exception\<close> does not catch.
  \<^item> The interpreter is CPython 3.11 or later with its default limit of 4300 digits for
    the conversion of a string to an integer; a limit changed at start-up is not
    modelled.
  \<^item> The platform is POSIX (names of environment variables are case sensitive). The file
    \<^verbatim>\<open>config.env\<close>, when it exists, is given as the list of its lines; failures of
    \<^verbatim>\<open>open\<close> and of decoding the file are not modelled.
\<close>

subsection \<open>Python string primitives\<close>

text \<open>The code points below 256 for which \<^verbatim>\<open>str.isspace()\<close> holds; \<^verbatim>\<open>str.strip()\<close>
  removes exactly these.\<close>

definition py_whitespace :: "char list" where
  "py_whitespace =
     [CHR 0x09, CHR 0x0A, CHR 0x0B, CHR 0x0C, CHR 0x0D,
      CHR 0x1C, CHR 0x1D, CHR 0x1E, CHR 0x1F, CHR 0x20, CHR 0x85, CHR 0xA0]"

definition py_isspace :: "char \<Rightarrow> bool" where
  "py_isspace c = (c \<in> set py_whitespace)"

text \<open>\<^verbatim>\<open>s.strip()\<close>\<close>

definition py_strip :: "string \<Rightarrow> string" where
  "py_strip s = rev (dropWhile py_isspace (rev (dropWhile py_isspace s)))"

text \<open>\<^verbatim>\<open>s.rstrip(chars)\<close>: removes every trailing character that occurs in \<^verbatim>\<open>chars\<close>.\<close>

definition py_rstrip :: "string \<Rightarrow> string \<Rightarrow> string" where
  "py_rstrip chars s = rev (dropWhile (\<lambda>c. c \<in> set chars) (rev s))"

text \<open>\<^verbatim>\<open>s.startswith(p)\<close>\<close>

definition startswith :: "string \<Rightarrow> string \<Rightarrow> bool" where
  "startswith s p = (take (length p) s = p)"

text \<open>\<^verbatim>\<open>s.split(sep, 1)\<close> for a one-character separator that occurs in \<^verbatim>\<open>s\<close>: the text
  before the first occurrence and the text after it. The script calls it only under
  the guard \<^verbatim>\<open>'=' in line\<close>.\<close>

definition split_once :: "char \<Rightarrow> string \<Rightarrow> string \<times> string" where
  "split_once sep s = (takeWhile (\<lambda>c. c \<noteq> sep) s, tl (dropWhile (\<lambda>c. c \<noteq> sep) s))"

subsection \<open>Exceptions\<close>

text \<open>
  The exception classes that reach a handler of the script. \<open>RequestsJSONDecodeError\<close> is
  \<^verbatim>\<open>requests.exceptions.JSONDecodeError\<close>, which the requests library (from 2.27 on)
  raises from \<^verbatim>\<open>response.json()\<close>; it derives from both
  \<^verbatim>\<open>requests.exceptions.RequestException\<close> and \<^verbatim>\<open>json.JSONDecodeError\<close>.
  \<open>JSONDecodeError\<close> is \<^verbatim>\<open>json.JSONDecodeError\<close> itself, \<open>RequestException\<close> any other
  exception of the requests library that is not a time-out.
\<close>

datatype exn_class =
    Timeout
  | RequestsJSONDecodeError
  | RequestException
  | JSONDecodeError
  | AttributeError
  | ValueError
  | OSError
  | OtherException

datatype exn = Exn (cls: exn_class) (detail: string)

text \<open>\<^verbatim>\<open>isinstance\<close> against the three classes the handlers of
  \<^verbatim>\<open>fetch_sentiment_data\<close> name.\<close>

fun isinstance_Timeout :: "exn \<Rightarrow> bool" where
  "isinstance_Timeout (Exn c _) = (c = Timeout)"

fun isinstance_RequestException :: "exn \<Rightarrow> bool" where
  "isinstance_RequestException (Exn c _) =
     (c = Timeout \<or> c = RequestsJSONDecodeError \<or> c = RequestException)"

fun isinstance_JSONDecodeError :: "exn \<Rightarrow> bool" where
  "isinstance_JSONDecodeError (Exn c _) = (c = RequestsJSONDecodeError \<or> c = JSONDecodeError)"

text \<open>How a call ends: it returns, raises an exception, or raises \<^verbatim>\<open>SystemExit\<close>
  through \<^verbatim>\<open>sys.exit\<close>.\<close>

datatype 'a result = Return 'a | Raise exn | SystemExit int

subsection \<open>\<^verbatim>\<open>int(s)\<close> on a string\<close>

text \<open>
  \<^verbatim>\<open>int\<close> skips leading and trailing white space, reads an optional sign, and then
  decimal digits, where single underscores may stand between digits. The white space it
  skips is the C locale's plus the non-ASCII spaces; unlike \<^verbatim>\<open>strip\<close> it does not skip
  the separators 0x1C to 0x1F. It raises \<^verbatim>\<open>ValueError\<close> for a string of another form,
  and also for a string with more digits (underscores not counted, leading zeros
  counted) than the interpreter's limit, \<^verbatim>\<open>sys.get_int_max_str_digits()\<close>.
\<close>

definition int_max_str_digits :: nat where
  "int_max_str_digits = 4300"

definition int_isspace :: "char \<Rightarrow> bool" where
  "int_isspace c =
     (c \<in> set [CHR 0x09, CHR 0x0A, CHR 0x0B, CHR 0x0C, CHR 0x0D, CHR 0x20, CHR 0x85, CHR 0xA0])"

definition is_digit :: "char \<Rightarrow> bool" where
  "is_digit c = (c \<in> set ''0123456789'')"

definition digit_val :: "char \<Rightarrow> nat" where
  "digit_val c = of_char c - 48"

fun digits_wf :: "string \<Rightarrow> bool" where
  "digits_wf [] = False"
| "digits_wf [c] = is_digit c"
| "digits_wf (c # d # cs) =
     (is_digit c \<and> (if d = CHR ''_'' then digits_wf cs else digits_wf (d # cs)))"

definition dec_value :: "string \<Rightarrow> nat" where
  "dec_value ds = foldl (\<lambda>acc c. 10 * acc + digit_val c) 0 (filter (\<lambda>c. c \<noteq> CHR ''_'') ds)"

definition py_int :: "string \<Rightarrow> exn + int" where
  "py_int s =
     (let t = rev (dropWhile int_isspace (rev (dropWhile int_isspace s)));
          neg = (t \<noteq> [] \<and> hd t = CHR ''-'');
          body = (if t \<noteq> [] \<and> (hd t = CHR ''-'' \<or> hd t = CHR ''+'') then tl t else t)
      in if digits_wf body \<and> length (filter (\<lambda>c. c \<noteq> CHR ''_'') body) \<le> int_max_str_digits
         then Inr (if neg then - int (dec_value body) else int (dec_value body))
         else Inl (Exn ValueError s))"

subsection \<open>The process environment\<close>

type_synonym environ = "string \<rightharpoonup> string"

text \<open>\<^verbatim>\<open>os.getenv(key)\<close> and \<^verbatim>\<open>os.getenv(key, default)\<close>\<close>

definition getenv :: "environ \<Rightarrow> string \<Rightarrow> string option" where
  "getenv env key = env key"

definition getenv_default :: "environ \<Rightarrow> string \<Rightarrow> string \<Rightarrow> string" where
  "getenv_default env key dflt = (case env key of None \<Rightarrow> dflt | Some v \<Rightarrow> v)"

text \<open>
  \<^verbatim>\<open>os.environ[key] = value\<close> on POSIX. The assignment raises \<^verbatim>\<open>ValueError\<close> for a name
  or value with a NUL character and for a name with \<^verbatim>\<open>=\<close>, and \<^verbatim>\<open>OSError\<close> for the
  empty name (\<^verbatim>\<open>setenv\<close> rejects it); otherwise it stores the value.
\<close>

definition environ_set :: "environ \<Rightarrow> string \<Rightarrow> string \<Rightarrow> exn + environ" where
  "environ_set env key v =
     (if CHR 0x00 \<in> set key \<or> CHR 0x00 \<in> set v \<or> CHR ''='' \<in> set key
      then Inl (Exn ValueError key)
      else if key = [] then Inl (Exn OSError key)
      else Inr (env(key \<mapsto> v)))"

text \<open>Python's truth value of \<^verbatim>\<open>os.getenv(key)\<close>: \<^verbatim>\<open>None\<close> and the empty string are
  false.\<close>

fun falsy :: "string option \<Rightarrow> bool" where
  "falsy None = True"
| "falsy (Some v) = (v = [])"

subsection \<open>JSON values and the HTTP exchange\<close>

text \<open>
  The Python value \<^verbatim>\<open>response.json()\<close> returns. A \<^verbatim>\<open>dict\<close> is an association list
  read by \<^const>\<open>map_of\<close>; a \<^verbatim>\<open>float\<close> is carried as its literal, since the script
  only formats it into a log line.
\<close>

datatype json_value =
    JNull
  | JBool bool
  | JInt int
  | JFloat string
  | JStr string
  | JArr "json_value list"
  | JObj "(string \<times> json_value) list"

fun py_type_name :: "json_value \<Rightarrow> string" where
  "py_type_name JNull = ''NoneType''"
| "py_type_name (JBool _) = ''bool''"
| "py_type_name (JInt _) = ''int''"
| "py_type_name (JFloat _) = ''float''"
| "py_type_name (JStr _) = ''str''"
| "py_type_name (JArr _) = ''list''"
| "py_type_name (JObj _) = ''dict''"

text \<open>\<^verbatim>\<open>result.get(key, default)\<close>: only a \<^verbatim>\<open>dict\<close> has the attribute \<^verbatim>\<open>get\<close>; on every
  other value the attribute lookup raises \<^verbatim>\<open>AttributeError\<close>.\<close>

fun dict_get :: "json_value \<Rightarrow> string \<Rightarrow> json_value \<Rightarrow> exn + json_value" where
  "dict_get (JObj kvs) key dflt = Inr (case map_of kvs key of None \<Rightarrow> dflt | Some v \<Rightarrow> v)"
| "dict_get v key dflt = Inl (Exn AttributeError (py_type_name v))"

text \<open>The dictionary \<^verbatim>\<open>load_config\<close> returns.\<close>

record config =
  base_url :: string
  cron_secret :: string
  timeout :: int

text \<open>The arguments of the call \<^verbatim>\<open>requests.post(url, headers=..., json=..., timeout=...)\<close>.\<close>

record request =
  url :: string
  headers :: "(string \<times> string) list"
  json_arg :: json_value
  timeout_arg :: int

text \<open>
  What the script reads of a response object: \<^verbatim>\<open>status_code\<close>, \<^verbatim>\<open>text\<close> and what the
  call \<^verbatim>\<open>json()\<close> does (it returns the parsed body or raises). The requests library is
  not part of the repository; the parser behind \<^verbatim>\<open>json()\<close> is therefore an observation
  of the response, not a function of the model.
\<close>

record response =
  status_code :: int
  text_body :: string
  json :: "exn + json_value"

text \<open>\<^verbatim>\<open>requests.post\<close> returns a response or raises.\<close>

datatype post_outcome = Responds response | Raises exn

subsection \<open>Log lines and the state of a run\<close>

datatype level = INFO | ERROR

datatype message =
    Separator                    \<comment> \<open>\<^verbatim>\<open>"=" * 60\<close>\<close>
  | JobStarted                   \<comment> \<open>\<^verbatim>\<open>DAILY SENTIMENT ANALYSIS CRON JOB STARTED\<close>\<close>
  | CurrentTime string           \<comment> \<open>\<^verbatim>\<open>Current time: {datetime.now().isoformat()}\<close>\<close>
  | LoadingConfig                \<comment> \<open>\<^verbatim>\<open>Loading config from {config_file}\<close>\<close>
  | VarRequired string           \<comment> \<open>\<^verbatim>\<open>{NAME} environment variable is required\<close>\<close>
  | ConfigLoaded string          \<comment> \<open>\<^verbatim>\<open>Configuration loaded - Base URL: {config['base_url']}\<close>\<close>
  | StartingFetch string         \<comment> \<open>\<^verbatim>\<open>Starting sentiment data fetch from {url}\<close>\<close>
  | ResponseStatus int           \<comment> \<open>\<^verbatim>\<open>Response status: {response.status_code}\<close>\<close>
  | FetchSuccessful              \<comment> \<open>\<^verbatim>\<open>Sentiment data fetch successful!\<close>\<close>
  | DataPoints json_value        \<comment> \<open>\<^verbatim>\<open>Data points: {result.get('dataPoints', 'N/A')}\<close>\<close>
  | TopPosts json_value          \<comment> \<open>\<^verbatim>\<open>Top posts: {result.get('topPosts', 'N/A')}\<close>\<close>
  | Timestamp json_value         \<comment> \<open>\<^verbatim>\<open>Timestamp: {result.get('timestamp', 'N/A')}\<close>\<close>
  | FailedWithStatus int         \<comment> \<open>\<^verbatim>\<open>Request failed with status {response.status_code}\<close>\<close>
  | ResponseText string          \<comment> \<open>\<^verbatim>\<open>Response: {response.text}\<close>\<close>
  | TimedOut int                 \<comment> \<open>\<^verbatim>\<open>Request timed out after {config['timeout']} seconds\<close>\<close>
  | RequestFailed exn            \<comment> \<open>\<^verbatim>\<open>Request failed: {str(e)}\<close>\<close>
  | JSONParseFailed exn          \<comment> \<open>\<^verbatim>\<open>Failed to parse JSON response: {str(e)}\<close>\<close>
  | UnexpectedError exn          \<comment> \<open>\<^verbatim>\<open>Unexpected error: {str(e)}\<close>\<close>
  | JobCompleted                 \<comment> \<open>\<^verbatim>\<open>Sentiment analysis cron job completed successfully\<close>\<close>
  | JobFailed                    \<comment> \<open>\<^verbatim>\<open>Sentiment analysis cron job failed\<close>\<close>
  | FatalError exn               \<comment> \<open>\<^verbatim>\<open>Fatal error in cron job: {str(e)}\<close>\<close>

text \<open>The state a run changes: the process environment, the log written so far, and
  the calls of \<^verbatim>\<open>requests.post\<close> made so far (oldest first).\<close>

record proc =
  environ :: environ
  log :: "(level \<times> message) list"
  sent :: "request list"

definition logger_info :: "message \<Rightarrow> proc \<Rightarrow> proc" where
  "logger_info m s = s\<lparr>log := log s @ [(INFO, m)]\<rparr>"

definition logger_error :: "message \<Rightarrow> proc \<Rightarrow> proc" where
  "logger_error m s = s\<lparr>log := log s @ [(ERROR, m)]\<rparr>"

text \<open>What a run is given: the environment of the process, the lines of
  \<^verbatim>\<open>config.env\<close> (\<open>None\<close> when the file does not exist), the clock reading, and the
  remote end of \<^verbatim>\<open>requests.post\<close>.\<close>

record world =
  os_environ :: environ
  config_env :: "string list option"
  now :: string
  http_post :: "request \<Rightarrow> post_outcome"

subsection \<open>\<^verbatim>\<open>load_config\<close>\<close>

text \<open>
  The loop over the lines of the file (lines 38 to 45). It returns the environment as
  the loop left it, and the exception that ended the loop early, if any.
\<close>

fun load_lines :: "environ \<Rightarrow> string list \<Rightarrow> environ \<times> exn option" where
  "load_lines env [] = (env, None)"
| "load_lines env (raw # rest) =
     (let line = py_strip raw in
      if line \<noteq> [] \<and> \<not> startswith line ''#'' \<and> CHR ''='' \<in> set line then
        (let (k, v) = split_once (CHR ''='') line;
             key = py_strip k
         in if env key = None then
              (case environ_set env key (py_strip v) of
                 Inl e \<Rightarrow> (env, Some e)
               | Inr env' \<Rightarrow> load_lines env' rest)
            else load_lines env rest)
      else load_lines env rest)"

text \<open>Lines 35 to 45: the file is read only if it exists.\<close>

definition load_file :: "string list option \<Rightarrow> proc \<Rightarrow> exn option \<times> proc" where
  "load_file file s =
     (case file of
        None \<Rightarrow> (None, s)
      | Some ls \<Rightarrow>
          (let s1 = logger_info LoadingConfig s;
               (env', r) = load_lines (environ s1) ls
           in (r, s1\<lparr>environ := env'\<rparr>)))"

text \<open>Lines 48 to 63: the required variables, then the returned dictionary. Past the
  two checks both variables are set and non-empty, so \<^const>\<open>the\<close> is applied to a
  value that is there.\<close>

definition required_config :: "proc \<Rightarrow> config result \<times> proc" where
  "required_config s =
     (let base = getenv (environ s) ''BASE_URL'';
          secret = getenv (environ s) ''CRON_SECRET''
      in if falsy base then
           (SystemExit 1, logger_error (VarRequired ''BASE_URL'') s)
         else if falsy secret then
           (SystemExit 1, logger_error (VarRequired ''CRON_SECRET'') s)
         else
           (case py_int (getenv_default (environ s) ''REQUEST_TIMEOUT'' ''300'') of
              Inl e \<Rightarrow> (Raise e, s)
            | Inr t \<Rightarrow>
                (Return \<lparr>base_url = py_rstrip ''/'' (the base),
                         cron_secret = the secret,
                         timeout = t\<rparr>, s)))"

definition load_config :: "string list option \<Rightarrow> proc \<Rightarrow> config result \<times> proc" where
  "load_config file s =
     (case load_file file s of
        (Some e, s1) \<Rightarrow> (Raise e, s1)
      | (None, s1) \<Rightarrow> required_config s1)"

subsection \<open>\<^verbatim>\<open>fetch_sentiment_data\<close>\<close>

definition endpoint_path :: string where
  "endpoint_path = ''/api/cron/sentiment-data''"

definition build_request :: "config \<Rightarrow> request" where
  "build_request cfg =
     \<lparr>url = base_url cfg @ endpoint_path,
      headers = [(''Content-Type'', ''application/json''),
                 (''Authorization'', ''Bearer '' @ cron_secret cfg)],
      json_arg = JObj [],
      timeout_arg = timeout cfg\<rparr>"

text \<open>The call of \<^verbatim>\<open>requests.post\<close>: it is recorded in the state, and the remote end
  decides how it ends.\<close>

definition requests_post :: "(request \<Rightarrow> post_outcome) \<Rightarrow> request \<Rightarrow> proc \<Rightarrow> post_outcome \<times> proc" where
  "requests_post net req s = (net req, s\<lparr>sent := sent s @ [req]\<rparr>)"

text \<open>The three \<^verbatim>\<open>result.get\<close> lines of the success branch (lines 89 to 91).\<close>

definition log_fields :: "json_value \<Rightarrow> proc \<Rightarrow> (exn + bool) \<times> proc" where
  "log_fields result s =
     (case dict_get result ''dataPoints'' (JStr ''N/A'') of
        Inl e \<Rightarrow> (Inl e, s)
      | Inr v1 \<Rightarrow>
          (let s1 = logger_info (DataPoints v1) s in
           case dict_get result ''topPosts'' (JStr ''N/A'') of
             Inl e \<Rightarrow> (Inl e, s1)
           | Inr v2 \<Rightarrow>
               (let s2 = logger_info (TopPosts v2) s1 in
                case dict_get result ''timestamp'' (JStr ''N/A'') of
                  Inl e \<Rightarrow> (Inl e, s2)
                | Inr v3 \<Rightarrow> (Inr True, logger_info (Timestamp v3) s2))))"

text \<open>The body of the \<^verbatim>\<open>try\<close> block (lines 77 to 96): \<open>Inr b\<close> when it returns \<open>b\<close>,
  \<open>Inl e\<close> when it raises \<open>e\<close>.\<close>

definition fetch_try :: "(request \<Rightarrow> post_outcome) \<Rightarrow> config \<Rightarrow> proc \<Rightarrow> (exn + bool) \<times> proc" where
  "fetch_try net cfg s =
     (case requests_post net (build_request cfg) s of
        (Raises e, s1) \<Rightarrow> (Inl e, s1)
      | (Responds r, s1) \<Rightarrow>
          (let s2 = logger_info (ResponseStatus (status_code r)) s1 in
           if status_code r = 200 then
             (case json r of
                Inl e \<Rightarrow> (Inl e, s2)
              | Inr result \<Rightarrow> log_fields result (logger_info FetchSuccessful s2))
           else
             (Inr False,
              logger_error (ResponseText (text_body r))
                (logger_error (FailedWithStatus (status_code r)) s2))))"

text \<open>The \<^verbatim>\<open>except\<close> clauses, in the order of the source (lines 98 to 109): the first
  clause whose class the exception is an instance of handles it.\<close>

definition fetch_except :: "config \<Rightarrow> exn \<Rightarrow> message" where
  "fetch_except cfg e =
     (if isinstance_Timeout e then TimedOut (timeout cfg)
      else if isinstance_RequestException e then RequestFailed e
      else if isinstance_JSONDecodeError e then JSONParseFailed e
      else UnexpectedError e)"

definition fetch_sentiment_data :: "(request \<Rightarrow> post_outcome) \<Rightarrow> config \<Rightarrow> proc \<Rightarrow> bool \<times> proc" where
  "fetch_sentiment_data net cfg s =
     (case fetch_try net cfg (logger_info (StartingFetch (base_url cfg @ endpoint_path)) s) of
        (Inr b, s1) \<Rightarrow> (b, s1)
      | (Inl e, s1) \<Rightarrow> (False, logger_error (fetch_except cfg e) s1))"

subsection \<open>\<^verbatim>\<open>main\<close>\<close>

text \<open>The \<^verbatim>\<open>try\<close> block of \<^verbatim>\<open>main\<close> (lines 119 to 133). Both branches end in
  \<^verbatim>\<open>sys.exit\<close>, so the block never returns normally.\<close>

definition main_try :: "world \<Rightarrow> proc \<Rightarrow> unit result \<times> proc" where
  "main_try w s =
     (case load_config (config_env w) s of
        (SystemExit n, s1) \<Rightarrow> (SystemExit n, s1)
      | (Raise e, s1) \<Rightarrow> (Raise e, s1)
      | (Return cfg, s1) \<Rightarrow>
          (let s2 = logger_info (ConfigLoaded (base_url cfg)) s1;
               (success, s3) = fetch_sentiment_data (http_post w) cfg s2
           in if success then
                (SystemExit 0, logger_info Separator (logger_info JobCompleted s3))
              else
                (SystemExit 1, logger_info Separator (logger_error JobFailed s3))))"

definition initial :: "world \<Rightarrow> proc" where
  "initial w = \<lparr>environ = os_environ w, log = [], sent = []\<rparr>"

text \<open>The state after the start banner (lines 113 to 116).\<close>

definition start_banner :: "world \<Rightarrow> proc" where
  "start_banner w =
     logger_info Separator
       (logger_info (CurrentTime (now w))
         (logger_info JobStarted
           (logger_info Separator (initial w))))"

text \<open>A run of the script: the exit status of the process and the final state.
  \<^verbatim>\<open>except Exception\<close> catches an exception but not \<^verbatim>\<open>SystemExit\<close>.\<close>

definition main :: "world \<Rightarrow> int \<times> proc" where
  "main w =
     (case main_try w (start_banner w) of
        (SystemExit n, s1) \<Rightarrow> (n, s1)
      | (Raise e, s1) \<Rightarrow> (1, logger_info Separator (logger_error (FatalError e) s1))
      | (Return _, s1) \<Rightarrow> (0, s1))"

subsection \<open>Notions of the specification\<close>

text \<open>The key and value pairs the file defines, in file order: what the loop of
  \<^verbatim>\<open>load_config\<close> would assign if no key were set yet.\<close>

fun file_pairs :: "string list \<Rightarrow> (string \<times> string) list" where
  "file_pairs [] = []"
| "file_pairs (raw # rest) =
     (let line = py_strip raw in
      if line \<noteq> [] \<and> \<not> startswith line ''#'' \<and> CHR ''='' \<in> set line then
        (let (k, v) = split_once (CHR ''='') line
         in (py_strip k, py_strip v) # file_pairs rest)
      else file_pairs rest)"

text \<open>Removal of a single trailing slash, as the specification words the
  normalisation of the base URL.\<close>

definition strip_one_slash :: "string \<Rightarrow> string" where
  "strip_one_slash s = (if s \<noteq> [] \<and> last s = CHR ''/'' then butlast s else s)"

text \<open>The decimal numeral of an integer, as \<^verbatim>\<open>str(n)\<close> writes it.\<close>

definition digit_char :: "nat \<Rightarrow> char" where
  "digit_char d = ''0123456789'' ! d"

function digits_of :: "nat \<Rightarrow> string" where
  "digits_of n = (if n < 10 then [digit_char n] else digits_of (n div 10) @ [digit_char (n mod 10)])"
  by pat_completeness auto
termination
  by (relation "measure id") auto

declare digits_of.simps [simp del]

definition py_str :: "int \<Rightarrow> string" where
  "py_str i = (if i < 0 then CHR ''-'' # digits_of (nat (- i)) else digits_of (nat i))"

text \<open>A remote end that ends every call of \<^verbatim>\<open>requests.post\<close> the same way.\<close>

definition always :: "post_outcome \<Rightarrow> request \<Rightarrow> post_outcome" where
  "always out req = out"

subsection \<open>Inputs of the examples\<close>

definition example_config :: config where
  "example_config = \<lparr>base_url = ''http://example.com'', cron_secret = ''secret'', timeout = 300\<rparr>"

definition example_request :: request where
  "example_request =
     \<lparr>url = ''http://example.com/api/cron/sentiment-data'',
      headers = [(''Content-Type'', ''application/json''), (''Authorization'', ''Bearer secret'')],
      json_arg = JObj [],
      timeout_arg = 300\<rparr>"

text \<open>A state in which nothing has happened yet and the environment is empty.\<close>

definition idle :: proc where
  "idle = \<lparr>environ = Map.empty, log = [], sent = []\<rparr>"

definition example_environ :: environ where
  "example_environ = [''BASE_URL'' \<mapsto> ''http://example.com/'', ''CRON_SECRET'' \<mapsto> ''secret'']"

definition example_world :: "post_outcome \<Rightarrow> world" where
  "example_world out =
     \<lparr>os_environ = example_environ, config_env = None, now = ''2025-01-01T09:00:00'',
      http_post = always out\<rparr>"

section \<open>Properties\<close>

subsection \<open>The loop over the file\<close>

lemma load_lines_keeps:
  "env k = Some v \<Longrightarrow> fst (load_lines env ls) k = Some v"
proof (induction ls arbitrary: env)
  case Nil
  then show ?case by simp
next
  case (Cons raw rest)
  show ?case
  proof (cases "environ_set env (py_strip (fst (split_once (CHR ''='') (py_strip raw))))
                  (py_strip (snd (split_once (CHR ''='') (py_strip raw))))")
    case (Inl e)
    with Cons show ?thesis
      by (simp add: Let_def split_beta)
  next
    case (Inr env')
    then have "env' k = Some v \<or> env (py_strip (fst (split_once (CHR ''='') (py_strip raw)))) \<noteq> None"
      using Cons.prems by (auto simp: environ_set_def split: if_splits)
    with Cons Inr show ?thesis
      by (auto simp add: Let_def split_beta)
  qed
qed

lemma load_lines_merge:
  "snd (load_lines env ls) = None \<Longrightarrow> fst (load_lines env ls) = map_of (file_pairs ls) ++ env"
proof (induction ls arbitrary: env)
  case Nil
  then show ?case by simp
next
  case (Cons raw rest)
  define line where "line = py_strip raw"
  define key where "key = py_strip (fst (split_once (CHR ''='') line))"
  define val where "val = py_strip (snd (split_once (CHR ''='') line))"
  show ?case
  proof (cases "line \<noteq> [] \<and> \<not> startswith line ''#'' \<and> CHR ''='' \<in> set line")
    case False
    with Cons show ?thesis
      by (auto simp add: line_def Let_def)
  next
    case acc: True
    have fp: "file_pairs (raw # rest) = (key, val) # file_pairs rest"
      using acc by (simp add: Let_def split_beta line_def key_def val_def)
    show ?thesis
    proof (cases "env key")
      case (Some u)
      have ll: "load_lines env (raw # rest) = load_lines env rest"
        using acc Some by (simp add: Let_def split_beta line_def key_def)
      have "snd (load_lines env rest) = None"
        using Cons.prems unfolding ll .
      then have "fst (load_lines env rest) = map_of (file_pairs rest) ++ env"
        by (rule Cons.IH)
      also have "\<dots> = map_of ((key, val) # file_pairs rest) ++ env"
        using Some by (auto simp: map_add_def fun_eq_iff split: option.splits)
      finally show ?thesis
        by (simp only: fp ll)
    next
      case None
      have step: "load_lines env (raw # rest) =
                  (case environ_set env key val of
                     Inl e \<Rightarrow> (env, Some e) | Inr env' \<Rightarrow> load_lines env' rest)"
        using acc None by (simp add: Let_def split_beta line_def key_def val_def)
      with Cons.prems obtain env' where set: "environ_set env key val = Inr env'"
        by (cases "environ_set env key val") auto
      then have env': "env' = env(key \<mapsto> val)"
        by (auto simp: environ_set_def split: if_splits)
      have ll: "load_lines env (raw # rest) = load_lines (env(key \<mapsto> val)) rest"
        using step set env' by simp
      have "snd (load_lines (env(key \<mapsto> val)) rest) = None"
        using Cons.prems unfolding ll .
      then have "fst (load_lines (env(key \<mapsto> val)) rest) = map_of (file_pairs rest) ++ env(key \<mapsto> val)"
        by (rule Cons.IH)
      also have "\<dots> = map_of ((key, val) # file_pairs rest) ++ env"
        using None by (auto simp: map_add_def fun_eq_iff split: option.splits)
      finally show ?thesis
        by (simp only: fp ll)
    qed
  qed
qed

subsection \<open>State and result of each function\<close>

lemma start_banner_simps:
  "environ (start_banner w) = os_environ w"
  "sent (start_banner w) = []"
  "log (start_banner w) =
     [(INFO, Separator), (INFO, JobStarted), (INFO, CurrentTime (now w)), (INFO, Separator)]"
  by (simp_all add: start_banner_def initial_def logger_info_def)

lemma logger_simps:
  "environ (logger_info m s) = environ s" "sent (logger_info m s) = sent s"
  "log (logger_info m s) = log s @ [(INFO, m)]"
  "environ (logger_error m s) = environ s" "sent (logger_error m s) = sent s"
  "log (logger_error m s) = log s @ [(ERROR, m)]"
  by (simp_all add: logger_info_def logger_error_def)

lemma load_file_sent: "sent (snd (load_file f s)) = sent s"
  by (cases f) (simp_all add: load_file_def split_beta logger_simps)

lemma load_file_log:
  "log (snd (load_file f s)) = log s @ (case f of None \<Rightarrow> [] | Some ls \<Rightarrow> [(INFO, LoadingConfig)])"
  by (cases f) (simp_all add: load_file_def split_beta logger_simps)

lemma load_file_keeps:
  "environ s k = Some v \<Longrightarrow> environ (snd (load_file f s)) k = Some v"
  by (cases f) (simp_all add: load_file_def split_beta logger_simps load_lines_keeps)

lemma required_config_base:
  "falsy (environ s ''BASE_URL'') \<Longrightarrow>
   required_config s = (SystemExit 1, logger_error (VarRequired ''BASE_URL'') s)"
  by (simp add: required_config_def getenv_def)

lemma required_config_secret:
  "\<not> falsy (environ s ''BASE_URL'') \<Longrightarrow> falsy (environ s ''CRON_SECRET'') \<Longrightarrow>
   required_config s = (SystemExit 1, logger_error (VarRequired ''CRON_SECRET'') s)"
  by (simp add: required_config_def getenv_def)

lemma required_config_timeout:
  "\<not> falsy (environ s ''BASE_URL'') \<Longrightarrow> \<not> falsy (environ s ''CRON_SECRET'') \<Longrightarrow>
   required_config s =
     (case py_int (getenv_default (environ s) ''REQUEST_TIMEOUT'' ''300'') of
        Inl e \<Rightarrow> (Raise e, s)
      | Inr t \<Rightarrow> (Return \<lparr>base_url = py_rstrip ''/'' (the (environ s ''BASE_URL'')),
                          cron_secret = the (environ s ''CRON_SECRET''), timeout = t\<rparr>, s))"
  by (simp add: required_config_def getenv_def)

lemma required_config_sent: "sent (snd (required_config s)) = sent s"
  by (simp add: required_config_def Let_def logger_simps split: sum.splits)

lemma required_config_environ: "environ (snd (required_config s)) = environ s"
  by (simp add: required_config_def Let_def logger_simps split: sum.splits)

lemma required_config_exit: "fst (required_config s) = SystemExit n \<Longrightarrow> n = 1"
  by (simp add: required_config_def Let_def split: sum.splits if_splits)

lemma load_config_sent: "sent (snd (load_config f s)) = sent s"
  using load_file_sent [of f s]
  by (cases "load_file f s") (simp add: load_config_def required_config_sent split: option.splits)

lemma load_config_exit: "fst (load_config f s) = SystemExit n \<Longrightarrow> n = 1"
  by (cases "load_file f s")
     (auto simp add: load_config_def split: option.splits dest: required_config_exit)

lemma load_config_keeps:
  "environ s k = Some v \<Longrightarrow> environ (snd (load_config f s)) k = Some v"
  using load_file_keeps [of s k v f]
  by (cases "load_file f s") (simp add: load_config_def required_config_environ split: option.splits)

lemma fetch_sent:
  "sent (snd (fetch_sentiment_data net cfg s)) = sent s @ [build_request cfg]"
  by (simp add: fetch_sentiment_data_def fetch_try_def requests_post_def log_fields_def Let_def
      logger_simps split: post_outcome.splits sum.splits prod.splits)

lemma log_fields_result:
  "fst (log_fields v s) = (case v of JObj kvs \<Rightarrow> Inr True | _ \<Rightarrow> Inl (Exn AttributeError (py_type_name v)))"
  by (cases v) (simp_all add: log_fields_def Let_def)

lemma fetch_try_result:
  "fst (fetch_try net cfg s) =
     (case net (build_request cfg) of
        Raises e \<Rightarrow> Inl e
      | Responds r \<Rightarrow>
          if status_code r = 200 then
            (case json r of
               Inl e \<Rightarrow> Inl e
             | Inr v \<Rightarrow> (case v of JObj kvs \<Rightarrow> Inr True
                         | _ \<Rightarrow> Inl (Exn AttributeError (py_type_name v))))
          else Inr False)"
  by (simp add: fetch_try_def requests_post_def Let_def log_fields_result
      split: post_outcome.splits sum.splits)

lemma fetch_by_try:
  "fst (fetch_sentiment_data net cfg s) =
     (case fst (fetch_try net cfg (logger_info (StartingFetch (base_url cfg @ endpoint_path)) s)) of
        Inl e \<Rightarrow> False | Inr b \<Rightarrow> b)"
  by (simp add: fetch_sentiment_data_def split: prod.splits sum.splits)

lemma fetch_result:
  "fst (fetch_sentiment_data net cfg s) =
     (case net (build_request cfg) of
        Raises e \<Rightarrow> False
      | Responds r \<Rightarrow> status_code r = 200 \<and> (case json r of Inr (JObj kvs) \<Rightarrow> True | _ \<Rightarrow> False))"
  unfolding fetch_by_try fetch_try_result
  by (simp split: post_outcome.splits sum.splits json_value.splits)

lemma main_exit_load:
  "load_config (config_env w) (start_banner w) = (SystemExit n, s1) \<Longrightarrow> main w = (1, s1)"
  using load_config_exit [of "config_env w" "start_banner w" n]
  by (simp add: main_def main_try_def)

lemma main_raise_load:
  "load_config (config_env w) (start_banner w) = (Raise e, s1) \<Longrightarrow>
   main w = (1, logger_info Separator (logger_error (FatalError e) s1))"
  by (simp add: main_def main_try_def)

lemma main_return_load:
  "load_config (config_env w) (start_banner w) = (Return cfg, s1) \<Longrightarrow>
   main w =
     (let r = fetch_sentiment_data (http_post w) cfg (logger_info (ConfigLoaded (base_url cfg)) s1)
      in if fst r then (0, logger_info Separator (logger_info JobCompleted (snd r)))
         else (1, logger_info Separator (logger_error JobFailed (snd r))))"
  by (simp add: main_def main_try_def Let_def split_beta)


subsection \<open>Decimal numerals are read back by \<^verbatim>\<open>int\<close>\<close>

lemma digit_char_cases:
  "d < 10 \<Longrightarrow> d = 0 \<or> d = 1 \<or> d = 2 \<or> d = 3 \<or> d = 4 \<or> d = 5 \<or> d = 6 \<or> d = 7 \<or> d = 8 \<or> d = (9::nat)"
  by arith

lemma digit_char_props:
  assumes "d < 10"
  shows "is_digit (digit_char d)" and "digit_val (digit_char d) = d"
    and "\<not> int_isspace (digit_char d)" and "digit_char d \<noteq> CHR ''_''"
    and "digit_char d \<noteq> CHR ''-''" and "digit_char d \<noteq> CHR ''+''"
  using digit_char_cases [OF assms]
  by (auto simp: digit_char_def is_digit_def digit_val_def int_isspace_def)



lemma digits_of_props:
  "digits_of n \<noteq> [] \<and> (\<forall>c \<in> set (digits_of n). is_digit c \<and> \<not> int_isspace c \<and> c \<noteq> CHR ''_''
      \<and> c \<noteq> CHR ''-'' \<and> c \<noteq> CHR ''+'')"
proof (induction n rule: digits_of.induct)
  case (1 n)
  show ?case
  proof (cases "n < 10")
    case True
    then show ?thesis
      using digit_char_props [of n] by (simp add: digits_of.simps [of n])
  next
    case False
    have "n mod 10 < 10" by simp
    from digit_char_props [OF this] 1 False show ?thesis
      by (auto simp add: digits_of.simps [of n])
  qed
qed

lemma digits_wf_all:
  "ds \<noteq> [] \<Longrightarrow> \<forall>c \<in> set ds. is_digit c \<and> c \<noteq> CHR ''_'' \<Longrightarrow> digits_wf ds"
  by (induction ds rule: digits_wf.induct) auto

lemma dec_value_snoc:
  "c \<noteq> CHR ''_'' \<Longrightarrow> dec_value (ds @ [c]) = 10 * dec_value ds + digit_val c"
  by (simp add: dec_value_def)

lemma dec_value_digits_of: "dec_value (digits_of n) = n"
proof (induction n rule: digits_of.induct)
  case (1 n)
  show ?case
  proof (cases "n < 10")
    case True
    then show ?thesis
      using digit_char_props [of n] by (simp add: digits_of.simps [of n] dec_value_def)
  next
    case False
    have "n mod 10 < 10" by simp
    from digit_char_props [OF this] 1 False show ?thesis
      by (simp add: digits_of.simps [of n] dec_value_snoc)
  qed
qed

lemma strip_no_space:
  assumes "ds \<noteq> []" "\<not> P (hd ds)" "\<not> P (last ds)"
  shows "rev (dropWhile P (rev (dropWhile P ds))) = ds"
proof -
  have "dropWhile P ds = ds"
    using assms by (cases ds) simp_all
  moreover have "dropWhile P (rev ds) = rev ds"
    using assms by (cases "rev ds") (simp_all add: last_rev [symmetric] hd_rev)
  ultimately show ?thesis by simp
qed


lemma int_isspace_sign: "\<not> int_isspace (CHR ''-'')"
  by (simp add: int_isspace_def)

lemma length_digits_of:
  "n < 10 ^ k \<Longrightarrow> 0 < k \<Longrightarrow> length (digits_of n) \<le> k"
proof (induction n arbitrary: k rule: digits_of.induct)
  case (1 n)
  show ?case
  proof (cases "n < 10")
    case True
    with 1(3) show ?thesis
      by (simp add: digits_of.simps [of n])
  next
    case False
    obtain j where k: "k = Suc j"
      using 1(3) by (cases k) auto
    with 1(2) have lt: "n div 10 < 10 ^ j"
      by (simp add: less_mult_imp_div_less mult.commute)
    have "0 < j"
    proof (rule ccontr)
      assume "\<not> 0 < j"
      with lt have "n div 10 = 0" by simp
      with False show False by simp
    qed
    with 1(1) [OF False lt] have "length (digits_of (n div 10)) \<le> j" .
    with False k show ?thesis
      by (simp add: digits_of.simps [of n])
  qed
qed

lemma py_int_py_str:
  assumes "\<bar>i\<bar> < 10 ^ int_max_str_digits"
  shows "py_int (py_str i) = Inr i"
proof -
  define ds where "ds = digits_of (nat \<bar>i\<bar>)"
  have ne: "ds \<noteq> []"
    and all: "\<forall>c \<in> set ds. is_digit c \<and> \<not> int_isspace c \<and> c \<noteq> CHR ''_'' \<and> c \<noteq> CHR ''-'' \<and> c \<noteq> CHR ''+''"
    using digits_of_props [of "nat \<bar>i\<bar>"] by (simp_all add: ds_def)
  from ne all have hd: "is_digit (hd ds) \<and> \<not> int_isspace (hd ds) \<and> hd ds \<noteq> CHR ''-'' \<and> hd ds \<noteq> CHR ''+''"
    and last: "\<not> int_isspace (last ds)"
    by (simp_all add: hd_in_set last_in_set)
  have wf: "digits_wf ds"
    using ne all by (simp add: digits_wf_all)
  have val: "dec_value ds = nat \<bar>i\<bar>"
    by (simp add: ds_def dec_value_digits_of)
  have "nat \<bar>i\<bar> < 10 ^ int_max_str_digits"
    using assms by (simp add: nat_less_iff)
  then have "length ds \<le> int_max_str_digits"
    unfolding ds_def by (rule length_digits_of) (simp add: int_max_str_digits_def)
  moreover have "filter (\<lambda>c. c \<noteq> CHR ''_'') ds = ds"
    using all by (simp add: filter_id_conv)
  ultimately have cap: "length (filter (\<lambda>c. c \<noteq> CHR ''_'') ds) \<le> int_max_str_digits"
    by simp
  show ?thesis
  proof (cases "i < 0")
    case True
    then have s: "py_str i = CHR ''-'' # ds"
      by (simp add: py_str_def ds_def)
    have "rev (dropWhile int_isspace (rev (dropWhile int_isspace (CHR ''-'' # ds)))) = CHR ''-'' # ds"
      using ne last by (intro strip_no_space) (simp_all add: int_isspace_sign)
    then show ?thesis
      using True wf val cap by (simp add: py_int_def s Let_def)
  next
    case False
    then have s: "py_str i = ds"
      by (simp add: py_str_def ds_def)
    have "rev (dropWhile int_isspace (rev (dropWhile int_isspace ds))) = ds"
      using ne hd last by (intro strip_no_space) simp_all
    then show ?thesis
      using False wf val hd ne cap by (simp add: py_int_def s Let_def)
  qed
qed

lemma digits_of_power10: "digits_of (10 ^ k) = CHR ''1'' # replicate k (CHR ''0'')"
proof (induction k)
  case 0
  show ?case by (simp add: digits_of.simps [of "Suc 0"] digit_char_def)
next
  case (Suc k)
  have "\<not> (10 * 10 ^ k :: nat) < 10" by simp
  then have "digits_of (10 * 10 ^ k) = digits_of (10 ^ k) @ [digit_char 0]"
    by (simp add: digits_of.simps [of "10 * 10 ^ k"])
  with Suc show ?case
    by (simp add: digit_char_def replicate_append_same)
qed

lemma py_str_power10: "py_str ((10::int) ^ k) = CHR ''1'' # replicate k (CHR ''0'')"
proof -
  have n: "nat ((10::int) ^ k) = (10::nat) ^ k"
    by (simp add: nat_power_eq)
  have "\<not> (10::int) ^ k < 0"
    by simp
  then show ?thesis
    by (simp only: py_str_def if_False n digits_of_power10)
qed

lemma py_int_power10_long:
  assumes "int_max_str_digits \<le> k"
  shows "py_int (CHR ''1'' # replicate k (CHR ''0'')) =
           Inl (Exn ValueError (CHR ''1'' # replicate k (CHR ''0'')))"
proof -
  let ?s = "CHR ''1'' # replicate k (CHR ''0'')"
  have "\<not> int_isspace (hd ?s)" and "\<not> int_isspace (last ?s)"
    by (simp_all add: int_isspace_def)
  then have "rev (dropWhile int_isspace (rev (dropWhile int_isspace ?s))) = ?s"
    by (intro strip_no_space) simp_all
  moreover have "length (filter (\<lambda>c. c \<noteq> CHR ''_'') ?s) = Suc k"
    by simp
  ultimately show ?thesis
    using assms by (simp add: py_int_def Let_def)
qed

subsection \<open>Unfolding sets for evaluation\<close>

lemmas config_defs = load_config_def load_file_def required_config_def getenv_def
  getenv_default_def py_rstrip_def

lemmas int_defs = py_int_def int_isspace_def is_digit_def digit_val_def dec_value_def
  int_max_str_digits_def

lemmas line_defs = py_strip_def py_isspace_def py_whitespace_def startswith_def split_once_def
  environ_set_def

lemmas run_defs = main_def main_try_def start_banner_def initial_def

lemmas fetch_defs = fetch_sentiment_data_def fetch_try_def fetch_except_def log_fields_def
  requests_post_def build_request_def logger_info_def logger_error_def endpoint_path_def

subsection \<open>Paths through \<^verbatim>\<open>load_config\<close> and \<^verbatim>\<open>main\<close>\<close>

lemma fetch_no_banner:
  "(INFO, JobCompleted) \<in> set (log (snd (fetch_sentiment_data net cfg s))) \<longleftrightarrow>
   (INFO, JobCompleted) \<in> set (log s)"
  by (simp add: fetch_defs Let_def split: post_outcome.splits sum.splits prod.splits json_value.splits)

lemma load_config_no_banner:
  "(INFO, JobCompleted) \<in> set (log (snd (load_config f s))) \<longleftrightarrow>
   (INFO, JobCompleted) \<in> set (log s)"
proof -
  have a: "(INFO, JobCompleted) \<in> set (log (snd (load_file f s))) \<longleftrightarrow> (INFO, JobCompleted) \<in> set (log s)"
    by (simp add: load_file_log split: option.splits)
  have b: "\<And>t. (INFO, JobCompleted) \<in> set (log (snd (required_config t))) \<longleftrightarrow> (INFO, JobCompleted) \<in> set (log t)"
    by (simp add: required_config_def Let_def logger_simps split: sum.splits)
  show ?thesis
    using a b [of "snd (load_file f s)"]
    by (cases "load_file f s") (auto simp add: load_config_def split: option.splits)
qed

lemma main_success_banner:
  "fst (main w) = 0 \<longleftrightarrow> (INFO, JobCompleted) \<in> set (log (snd (main w)))"
proof (cases "load_config (config_env w) (start_banner w)")
  case (Pair r s1)
  have s1: "(INFO, JobCompleted) \<notin> set (log s1)"
    using load_config_no_banner [of "config_env w" "start_banner w"] Pair
    by (simp add: start_banner_simps)
  show ?thesis
  proof (cases r)
    case (Return cfg)
    with Pair s1 show ?thesis
      by (simp add: main_return_load Let_def logger_simps fetch_no_banner)
  next
    case (Raise e)
    with Pair s1 show ?thesis by (simp add: main_raise_load logger_simps)
  next
    case (SystemExit n)
    with Pair s1 show ?thesis by (simp add: main_exit_load)
  qed
qed

lemma load_config_by_file:
  "load_file f s = (None, s1) \<Longrightarrow> load_config f s = required_config s1"
  "load_file f s = (Some e, s1) \<Longrightarrow> load_config f s = (Raise e, s1)"
  by (simp_all add: load_config_def)

lemma required_config_missing:
  "falsy (environ s ''BASE_URL'') \<or> falsy (environ s ''CRON_SECRET'') \<Longrightarrow>
   required_config s =
     (SystemExit 1,
      logger_error
        (VarRequired (if falsy (environ s ''BASE_URL'') then ''BASE_URL'' else ''CRON_SECRET'')) s)"
  by (cases "falsy (environ s ''BASE_URL'')")
     (simp_all add: required_config_base required_config_secret)

lemma load_config_Return:
  assumes "load_config f s = (Return cfg, s1)"
  shows "load_file f s = (None, s1)"
    and "\<not> falsy (environ s1 ''BASE_URL'')" and "\<not> falsy (environ s1 ''CRON_SECRET'')"
    and "py_int (getenv_default (environ s1) ''REQUEST_TIMEOUT'' ''300'') = Inr (timeout cfg)"
    and "base_url cfg = py_rstrip ''/'' (the (environ s1 ''BASE_URL''))"
    and "cron_secret cfg = the (environ s1 ''CRON_SECRET'')"
proof -
  obtain r s0 where lf: "load_file f s = (r, s0)"
    by (cases "load_file f s")
  with assms have r: "r = None" and rc: "required_config s0 = (Return cfg, s1)"
    by (cases r; simp add: load_config_def)+
  from rc have s: "s0 = s1"
    using required_config_def [of s0]
    by (auto simp: Let_def split: if_splits sum.splits)
  from lf r s show "load_file f s = (None, s1)" by simp
  from rc s show nb: "\<not> falsy (environ s1 ''BASE_URL'')"
    by (auto simp: required_config_base)
  from rc s nb show ns: "\<not> falsy (environ s1 ''CRON_SECRET'')"
    by (auto simp: required_config_secret)
  from rc s nb ns
  show "py_int (getenv_default (environ s1) ''REQUEST_TIMEOUT'' ''300'') = Inr (timeout cfg)"
    and "base_url cfg = py_rstrip ''/'' (the (environ s1 ''BASE_URL''))"
    and "cron_secret cfg = the (environ s1 ''CRON_SECRET'')"
    by (auto simp: required_config_timeout split: sum.splits)
qed

lemma main_without_config:
  assumes "\<And>cfg s1. load_config (config_env w) (start_banner w) \<noteq> (Return cfg, s1)"
  shows "fst (main w) = 1" and "sent (snd (main w)) = []"
proof -
  obtain r s1 where lc: "load_config (config_env w) (start_banner w) = (r, s1)"
    by (cases "load_config (config_env w) (start_banner w)")
  have s1: "sent s1 = []"
    using load_config_sent [of "config_env w" "start_banner w"] lc
    by (simp add: start_banner_simps)
  show "fst (main w) = 1" and "sent (snd (main w)) = []"
    using lc s1 assms
    by (cases r; simp add: main_raise_load main_exit_load logger_simps)+
qed

lemma py_int_300: "py_int ''300'' = Inr 300"
  by (simp add: int_defs)

lemma main_sent:
  "sent (snd (main w)) =
     (case load_config (config_env w) (start_banner w) of
        (Return cfg, s1) \<Rightarrow> [build_request cfg]
      | _ \<Rightarrow> [])"
proof (cases "load_config (config_env w) (start_banner w)")
  case (Pair r s1)
  have s1: "sent s1 = []"
    using load_config_sent [of "config_env w" "start_banner w"] Pair
    by (simp add: start_banner_simps)
  show ?thesis
    using Pair s1
    by (cases r) (simp_all add: main_return_load main_raise_load main_exit_load Let_def
        logger_simps fetch_sent)
qed

lemma fetch_environ: "environ (snd (fetch_sentiment_data net cfg s)) = environ s"
  by (simp add: fetch_defs Let_def split: post_outcome.splits sum.splits prod.splits json_value.splits)

lemma main_environ:
  "environ (snd (main w)) = environ (snd (load_config (config_env w) (start_banner w)))"
proof (cases "load_config (config_env w) (start_banner w)")
  case (Pair r s1)
  then show ?thesis
    by (cases r) (simp_all add: main_return_load main_raise_load main_exit_load Let_def
        logger_simps fetch_environ)
qed

lemma load_file_merge:
  assumes "fst (load_file (Some ls) s) = None"
  shows "environ (snd (load_file (Some ls) s)) = map_of (file_pairs ls) ++ environ s"
proof -
  from assms have "snd (load_lines (environ s) ls) = None"
    by (simp add: load_file_def split_beta logger_simps)
  then have "fst (load_lines (environ s) ls) = map_of (file_pairs ls) ++ environ s"
    by (rule load_lines_merge)
  then show ?thesis
    by (simp add: load_file_def split_beta logger_simps)
qed

lemma main_sent_url:
  assumes "os_environ w ''BASE_URL'' = Some b" and "req \<in> set (sent (snd (main w)))"
  shows "url req = py_rstrip ''/'' b @ ''/api/cron/sentiment-data''"
proof (cases "load_config (config_env w) (start_banner w)")
  case (Pair r s1)
  show ?thesis
  proof (cases r)
    case (Return cfg)
    with Pair have lc: "load_config (config_env w) (start_banner w) = (Return cfg, s1)"
      by simp
    have "environ s1 ''BASE_URL'' = Some b"
      using load_config_keeps [of "start_banner w" "''BASE_URL''" b "config_env w"] assms(1) lc
      by (simp add: start_banner_simps)
    with load_config_Return(5) [OF lc] have "base_url cfg = py_rstrip ''/'' b"
      by simp
    moreover have "req = build_request cfg"
      using assms(2) lc by (simp add: main_sent)
    ultimately show ?thesis
      by (simp add: build_request_def endpoint_path_def)
  next
    case (Raise e)
    with Pair assms(2) show ?thesis by (simp add: main_sent)
  next
    case (SystemExit n)
    with Pair assms(2) show ?thesis by (simp add: main_sent)
  qed
qed

subsection \<open>\<^verbatim>\<open>rstrip\<close> of one character\<close>

lemma py_rstrip_char:
  "\<exists>n. s = py_rstrip [c] s @ replicate n c \<and> (py_rstrip [c] s = [] \<or> last (py_rstrip [c] s) \<noteq> c)"
proof -
  define P where "P = (\<lambda>x. x = c)"
  define xs where "xs = rev s"
  have t: "takeWhile P xs = replicate (length (takeWhile P xs)) c"
    by (rule replicate_length_same [symmetric]) (auto simp: P_def dest: set_takeWhileD)
  have "s = rev (takeWhile P xs @ dropWhile P xs)"
    by (simp add: xs_def)
  also have "\<dots> = rev (dropWhile P xs) @ rev (takeWhile P xs)"
    by (rule rev_append)
  also have "rev (takeWhile P xs) = replicate (length (takeWhile P xs)) c"
    by (subst t) simp
  finally have a: "s = py_rstrip [c] s @ replicate (length (takeWhile P xs)) c"
    by (simp add: py_rstrip_def P_def xs_def)
  have b: "py_rstrip [c] s = [] \<or> last (py_rstrip [c] s) \<noteq> c"
  proof (cases "dropWhile P xs = []")
    case True
    then show ?thesis by (simp add: py_rstrip_def P_def xs_def)
  next
    case False
    then have "\<not> P (hd (dropWhile P xs))"
      by (rule hd_dropWhile)
    with False show ?thesis
      by (simp add: py_rstrip_def P_def xs_def last_rev)
  qed
  from a b show ?thesis by blast
qed

lemma strip_one_slash_agrees:
  assumes "s = t @ replicate n (CHR ''/'')" and "t = [] \<or> last t \<noteq> CHR ''/''" and "n \<le> 1"
  shows "strip_one_slash s = t"
proof (cases n)
  case 0
  with assms show ?thesis by (auto simp: strip_one_slash_def)
next
  case (Suc m)
  with assms have "s = t @ ''/''" by simp
  then show ?thesis by (simp add: strip_one_slash_def)
qed

section \<open>The claims\<close>

subsection \<open>C1: when the fetch reports success\<close>

text \<open>
  C1, as stated, fails. The claim says that the fetch succeeds whenever the status is 200
  and the body parses as JSON. A response with status 200 whose body is the JSON array
  \<^verbatim>\<open>[]\<close> parses, but \<^verbatim>\<open>result.get\<close> then raises \<^verbatim>\<open>AttributeError\<close> (a list has no
  \<^verbatim>\<open>get\<close>), the catch-all handler logs an unexpected error, and the fetch returns
  failure, after the line \<^verbatim>\<open>Sentiment data fetch successful!\<close> has been logged.
\<close>

theorem C1_counterexample:
  "status_code \<lparr>status_code = 200, text_body = ''[]'', json = Inr (JArr [])\<rparr> = 200 \<and>
   fetch_sentiment_data
     (always (Responds \<lparr>status_code = 200, text_body = ''[]'', json = Inr (JArr [])\<rparr>))
     example_config idle =
   (False,
    \<lparr>environ = Map.empty,
     log = [(INFO, StartingFetch ''http://example.com/api/cron/sentiment-data''),
            (INFO, ResponseStatus 200),
            (INFO, FetchSuccessful),
            (ERROR, UnexpectedError (Exn AttributeError ''list''))],
     sent = [example_request]\<rparr>)"
  by (simp add: fetch_defs always_def example_config_def idle_def example_request_def)

text \<open>
  C1, amended: for every response to the call, the fetch returns success if and only if
  the status code is 200 and the body parses as a JSON object; for every status code
  other than 200 it logs the status code and the raw body as errors and returns failure.
\<close>

theorem fetch_success_iff_object:
  assumes "net (build_request cfg) = Responds r"
  shows "fst (fetch_sentiment_data net cfg s) =
           (status_code r = 200 \<and> (\<exists>kvs. json r = Inr (JObj kvs)))
         \<and> (status_code r \<noteq> 200 \<longrightarrow>
              fetch_sentiment_data net cfg s =
                (False,
                 s\<lparr>log := log s @
                      [(INFO, StartingFetch (base_url cfg @ ''/api/cron/sentiment-data'')),
                       (INFO, ResponseStatus (status_code r)),
                       (ERROR, FailedWithStatus (status_code r)),
                       (ERROR, ResponseText (text_body r))],
                   sent := sent s @ [build_request cfg]\<rparr>))"
proof
  show "fst (fetch_sentiment_data net cfg s) =
          (status_code r = 200 \<and> (\<exists>kvs. json r = Inr (JObj kvs)))"
    using assms by (simp add: fetch_result split: sum.splits json_value.splits)
next
  show "status_code r \<noteq> 200 \<longrightarrow>
          fetch_sentiment_data net cfg s =
            (False,
             s\<lparr>log := log s @
                  [(INFO, StartingFetch (base_url cfg @ ''/api/cron/sentiment-data'')),
                   (INFO, ResponseStatus (status_code r)),
                   (ERROR, FailedWithStatus (status_code r)),
                   (ERROR, ResponseText (text_body r))],
               sent := sent s @ [build_request cfg]\<rparr>)"
    using assms
    by (simp add: fetch_sentiment_data_def fetch_try_def requests_post_def logger_info_def
        logger_error_def endpoint_path_def)
qed

text \<open>The amended C1 at a response with status 200 and the body \<^verbatim>\<open>{}\<close>, and at a
  response with status 201.\<close>

theorem fetch_success_iff_object_witness:
  "fst (fetch_sentiment_data
          (always (Responds \<lparr>status_code = 200, text_body = ''{}'', json = Inr (JObj [])\<rparr>))
          example_config idle)
   \<and> fetch_sentiment_data
         (always (Responds \<lparr>status_code = 201, text_body = ''created'', json = Inr (JObj [])\<rparr>))
         example_config idle =
       (False,
        \<lparr>environ = Map.empty,
         log = [(INFO, StartingFetch ''http://example.com/api/cron/sentiment-data''),
                (INFO, ResponseStatus 201),
                (ERROR, FailedWithStatus 201),
                (ERROR, ResponseText ''created'')],
         sent = [example_request]\<rparr>)"
proof -
  let ?ok = "\<lparr>status_code = 200, text_body = ''{}'', json = Inr (JObj [])\<rparr>"
  let ?created = "\<lparr>status_code = 201, text_body = ''created'', json = Inr (JObj [])\<rparr>"
  have a: "always (Responds ?ok) (build_request example_config) = Responds ?ok"
    and b: "always (Responds ?created) (build_request example_config) = Responds ?created"
    by (simp_all add: always_def)
  show ?thesis
    using a b
      fetch_success_iff_object [of "always (Responds ?ok)" example_config ?ok idle]
      fetch_success_iff_object [of "always (Responds ?created)" example_config ?created idle]
    by (simp add: example_config_def idle_def example_request_def build_request_def endpoint_path_def)
qed

subsection \<open>C2: the exit status\<close>

text \<open>
  C2: the exit status of a run is 0 exactly when the configuration was loaded and
  \<^verbatim>\<open>fetch_sentiment_data\<close> returned success, and 1 in every other case (the
  configuration loader exited or raised, or the fetch returned failure). The status is
  0 exactly when the success banner was logged.
\<close>

theorem exit_status_reflects_fetch:
  "fst (main w) =
     (if \<exists>cfg s1. load_config (config_env w) (start_banner w) = (Return cfg, s1) \<and>
           fst (fetch_sentiment_data (http_post w) cfg (logger_info (ConfigLoaded (base_url cfg)) s1))
      then 0 else 1)
   \<and> (fst (main w) = 0) = ((INFO, JobCompleted) \<in> set (log (snd (main w))))"
proof
  show "fst (main w) =
     (if \<exists>cfg s1. load_config (config_env w) (start_banner w) = (Return cfg, s1) \<and>
           fst (fetch_sentiment_data (http_post w) cfg (logger_info (ConfigLoaded (base_url cfg)) s1))
      then 0 else 1)"
  proof (cases "load_config (config_env w) (start_banner w)")
    case (Pair r s1)
    show ?thesis
    proof (cases r)
      case (Return cfg)
      with Pair show ?thesis by (simp add: main_return_load Let_def)
    next
      case (Raise e)
      with Pair show ?thesis by (simp add: main_raise_load)
    next
      case (SystemExit n)
      with Pair show ?thesis by (simp add: main_exit_load)
    qed
  qed
next
  show "(fst (main w) = 0) = ((INFO, JobCompleted) \<in> set (log (snd (main w))))"
    by (rule main_success_banner)
qed

text \<open>C2 on seven runs: a 200 response with a JSON object, a 500 response, a time-out,
  a refused connection, a 200 response that is not JSON, a time-out setting that is not
  an integer, and an empty environment.\<close>

theorem exit_status_reflects_fetch_witness:
  "fst (main (example_world (Responds \<lparr>status_code = 200, text_body = ''{}'', json = Inr (JObj [])\<rparr>))) = 0
   \<and> fst (main (example_world (Responds \<lparr>status_code = 500, text_body = ''server error'',
                                          json = Inl (Exn RequestsJSONDecodeError ''Expecting value'')\<rparr>))) = 1
   \<and> fst (main (example_world (Raises (Exn Timeout ''read timed out'')))) = 1
   \<and> fst (main (example_world (Raises (Exn RequestException ''connection refused'')))) = 1
   \<and> fst (main (example_world (Responds \<lparr>status_code = 200, text_body = ''<html>'',
                                          json = Inl (Exn JSONDecodeError ''Expecting value'')\<rparr>))) = 1
   \<and> fst (main ((example_world (Raises (Exn Timeout [])))
                  \<lparr>os_environ := example_environ(''REQUEST_TIMEOUT'' \<mapsto> ''soon'')\<rparr>)) = 1
   \<and> fst (main ((example_world (Raises (Exn Timeout [])))\<lparr>os_environ := Map.empty\<rparr>)) = 1"
  using
    exit_status_reflects_fetch [of "example_world (Responds \<lparr>status_code = 200, text_body = ''{}'', json = Inr (JObj [])\<rparr>)"]
  by (simp add: example_world_def example_environ_def always_def run_defs config_defs int_defs fetch_defs)

subsection \<open>C3: a required variable is absent\<close>

text \<open>
  C3: if \<^verbatim>\<open>BASE_URL\<close> or \<^verbatim>\<open>CRON_SECRET\<close> is absent from the environment after the
  configuration file has been loaded, \<^verbatim>\<open>load_config\<close> logs the error that names the
  variable (the first of the two that is unset or empty) and exits with status 1; the
  run ends with that status and that log line, and no request has been sent.
\<close>

theorem missing_required_variable_exits:
  assumes "load_file (config_env w) (start_banner w) = (None, s1)"
    and "environ s1 ''BASE_URL'' = None \<or> environ s1 ''CRON_SECRET'' = None"
  shows "load_config (config_env w) (start_banner w) =
           (SystemExit 1,
            logger_error (VarRequired (if falsy (environ s1 ''BASE_URL'')
                                       then ''BASE_URL'' else ''CRON_SECRET'')) s1)
       \<and> main w =
           (1, logger_error (VarRequired (if falsy (environ s1 ''BASE_URL'')
                                          then ''BASE_URL'' else ''CRON_SECRET'')) s1)
       \<and> sent (snd (main w)) = []"
proof -
  from assms(2) have "falsy (environ s1 ''BASE_URL'') \<or> falsy (environ s1 ''CRON_SECRET'')"
    by auto
  then have lc: "load_config (config_env w) (start_banner w) =
      (SystemExit 1,
       logger_error
         (VarRequired (if falsy (environ s1 ''BASE_URL'') then ''BASE_URL'' else ''CRON_SECRET'')) s1)"
    using assms(1) by (simp add: load_config_by_file required_config_missing)
  have "sent s1 = []"
    using load_file_sent [of "config_env w" "start_banner w"] assms(1)
    by (simp add: start_banner_simps)
  with lc show ?thesis
    by (simp add: main_exit_load [OF lc] logger_simps)
qed

text \<open>C3 on a run whose environment has \<^verbatim>\<open>BASE_URL\<close> only and whose file sets only
  \<^verbatim>\<open>REQUEST_TIMEOUT\<close>.\<close>

theorem missing_required_variable_exits_witness:
  "main \<lparr>os_environ = [''BASE_URL'' \<mapsto> ''http://example.com''],
         config_env = Some [''# settings'', ''REQUEST_TIMEOUT=60''],
         now = ''2025-01-01T09:00:00'',
         http_post = always (Raises (Exn Timeout []))\<rparr> =
   (1,
    \<lparr>environ = [''BASE_URL'' \<mapsto> ''http://example.com'', ''REQUEST_TIMEOUT'' \<mapsto> ''60''],
     log = [(INFO, Separator), (INFO, JobStarted), (INFO, CurrentTime ''2025-01-01T09:00:00''),
            (INFO, Separator), (INFO, LoadingConfig),
            (ERROR, VarRequired ''CRON_SECRET'')],
     sent = []\<rparr>)"
proof -
  let ?w = "\<lparr>os_environ = [''BASE_URL'' \<mapsto> ''http://example.com''],
         config_env = Some [''# settings'', ''REQUEST_TIMEOUT=60''],
         now = ''2025-01-01T09:00:00'',
         http_post = always (Raises (Exn Timeout []))\<rparr>"
  let ?s1 = "\<lparr>environ = [''BASE_URL'' \<mapsto> ''http://example.com'', ''REQUEST_TIMEOUT'' \<mapsto> ''60''],
     log = [(INFO, Separator), (INFO, JobStarted), (INFO, CurrentTime ''2025-01-01T09:00:00''),
            (INFO, Separator), (INFO, LoadingConfig)],
     sent = []\<rparr>"
  have a: "load_file (config_env ?w) (start_banner ?w) = (None, ?s1)"
    by (simp add: load_file_def start_banner_def initial_def logger_info_def line_defs Let_def)
  have b: "environ ?s1 ''BASE_URL'' = None \<or> environ ?s1 ''CRON_SECRET'' = None"
    by simp
  from missing_required_variable_exits [OF a b] show ?thesis
    by (simp add: logger_error_def)
qed

subsection \<open>C4: the environment takes precedence over the file\<close>

text \<open>
  C4: while the configuration file is read, every entry of the environment keeps its
  value, whether the loop ends normally or with an exception. When the loop ends
  normally, the environment is the merge of the pairs of the file and the former
  environment in which the former environment wins (and, among the pairs of the file,
  the first for a key): a pair of the file is set only for a key that is not present.
  Every entry of the environment of the process is still there at the end of the run,
  and when that environment defines \<^verbatim>\<open>BASE_URL\<close>, the URL of every request of the run
  is built from that value, whatever the file says.
\<close>

theorem environment_takes_precedence:
  "(\<forall>k v. environ s k = Some v \<longrightarrow> environ (snd (load_file file s)) k = Some v)
   \<and> (fst (load_file (Some ls) s) = None \<longrightarrow>
        environ (snd (load_file (Some ls) s)) = map_of (file_pairs ls) ++ environ s)
   \<and> (\<forall>k v. os_environ w k = Some v \<longrightarrow> environ (snd (main w)) k = Some v)
   \<and> (\<forall>b. os_environ w ''BASE_URL'' = Some b \<longrightarrow>
        (\<forall>req \<in> set (sent (snd (main w))).
           url req = py_rstrip ''/'' b @ ''/api/cron/sentiment-data''))"
proof -
  have "environ (snd (main w)) k = Some v" if "os_environ w k = Some v" for k v
    using load_config_keeps [of "start_banner w" k v "config_env w"] that
    by (simp add: main_environ start_banner_simps)
  then show ?thesis
    by (auto simp: load_file_keeps load_file_merge main_sent_url)
qed

text \<open>C4 on the environment \<^verbatim>\<open>BASE_URL=http://env.example\<close> and a file with
  \<^verbatim>\<open>BASE_URL=http://file.example\<close>.\<close>

theorem environment_takes_precedence_witness:
  "environ (snd (load_file (Some [''BASE_URL=http://file.example'', ''REQUEST_TIMEOUT=5''])
                   (idle\<lparr>environ := [''BASE_URL'' \<mapsto> ''http://env.example'',
                                      ''CRON_SECRET'' \<mapsto> ''secret'']\<rparr>))) =
     map_of [(''BASE_URL'', ''http://file.example''), (''REQUEST_TIMEOUT'', ''5'')]
       ++ [''BASE_URL'' \<mapsto> ''http://env.example'', ''CRON_SECRET'' \<mapsto> ''secret'']
   \<and> environ (snd (load_file (Some [''BASE_URL=http://file.example'', ''REQUEST_TIMEOUT=5''])
                   (idle\<lparr>environ := [''BASE_URL'' \<mapsto> ''http://env.example'',
                                      ''CRON_SECRET'' \<mapsto> ''secret'']\<rparr>))) ''BASE_URL'' =
       Some ''http://env.example''
   \<and> map url (sent (snd (main
         \<lparr>os_environ = [''BASE_URL'' \<mapsto> ''http://env.example'', ''CRON_SECRET'' \<mapsto> ''secret''],
          config_env = Some [''BASE_URL=http://file.example'', ''REQUEST_TIMEOUT=5''],
          now = ''2025-01-01T09:00:00'',
          http_post = always (Responds \<lparr>status_code = 200, text_body = ''{}'',
                                          json = Inr (JObj [])\<rparr>)\<rparr>))) =
       [''http://env.example/api/cron/sentiment-data'']"
proof -
  let ?ls = "[''BASE_URL=http://file.example'', ''REQUEST_TIMEOUT=5'']"
  let ?env = "[''BASE_URL'' \<mapsto> ''http://env.example'', ''CRON_SECRET'' \<mapsto> ''secret'']"
  let ?s = "idle\<lparr>environ := ?env\<rparr>"
  let ?w = "\<lparr>os_environ = ?env, config_env = Some ?ls, now = ''2025-01-01T09:00:00'',
             http_post = always (Responds \<lparr>status_code = 200, text_body = ''{}'',
                                             json = Inr (JObj [])\<rparr>)\<rparr>"
  note t = environment_takes_precedence [of ?s "Some ?ls" ?ls ?w]
  have a: "fst (load_file (Some ?ls) ?s) = None"
    by (simp add: load_file_def logger_info_def line_defs Let_def idle_def)
  have b: "environ ?s ''BASE_URL'' = Some ''http://env.example''"
    and c: "os_environ ?w ''BASE_URL'' = Some ''http://env.example''"
    and env: "environ ?s = ?env"
    by (simp_all add: idle_def)
  have d: "file_pairs ?ls = [(''BASE_URL'', ''http://file.example''), (''REQUEST_TIMEOUT'', ''5'')]"
    by (simp add: line_defs Let_def)
  have e: "sent (snd (main ?w)) =
             [build_request \<lparr>base_url = ''http://env.example'', cron_secret = ''secret'', timeout = 5\<rparr>]"
    by (simp add: run_defs config_defs int_defs line_defs fetch_defs always_def Let_def)
  from t a have "environ (snd (load_file (Some ?ls) ?s)) = map_of (file_pairs ?ls) ++ environ ?s"
    by blast
  then have 1: "environ (snd (load_file (Some ?ls) ?s)) =
      map_of [(''BASE_URL'', ''http://file.example''), (''REQUEST_TIMEOUT'', ''5'')] ++ ?env"
    by (simp only: d env)
  from t b have 2: "environ (snd (load_file (Some ?ls) ?s)) ''BASE_URL'' = Some ''http://env.example''"
    by blast
  from t c have "\<forall>req \<in> set (sent (snd (main ?w))).
      url req = py_rstrip ''/'' ''http://env.example'' @ ''/api/cron/sentiment-data''"
    by blast
  then have 3: "map url (sent (snd (main ?w))) = [''http://env.example/api/cron/sentiment-data'']"
    by (simp add: e py_rstrip_def)
  from 1 2 3 show ?thesis
    by (intro conjI)
qed

subsection \<open>C5: the base URL and the request URL\<close>

text \<open>
  C5, as stated, fails. The claim says that at most one trailing slash is removed. For
  \<^verbatim>\<open>BASE_URL=http://example.com//\<close> the configuration holds \<^verbatim>\<open>http://example.com\<close>:
  \<^verbatim>\<open>rstrip('/')\<close> removes both slashes, whereas the removal of a single slash leaves
  \<^verbatim>\<open>http://example.com/\<close>.
\<close>

theorem C5_counterexample:
  "fst (load_config None
          (idle\<lparr>environ := [''BASE_URL'' \<mapsto> ''http://example.com//'',
                             ''CRON_SECRET'' \<mapsto> ''secret'']\<rparr>)) =
     Return \<lparr>base_url = ''http://example.com'', cron_secret = ''secret'', timeout = 300\<rparr>
   \<and> strip_one_slash ''http://example.com//'' = ''http://example.com/''"
  by (simp add: config_defs int_defs idle_def strip_one_slash_def)

text \<open>
  C5, amended: the \<^verbatim>\<open>base_url\<close> of the configuration is the value of \<^verbatim>\<open>BASE_URL\<close> with
  all its trailing slashes removed, so it does not end in a slash; when the value ends
  in at most one slash this is the value with a single trailing slash removed. The URL
  of the request is that base followed by \<^verbatim>\<open>/api/cron/sentiment-data\<close>.
\<close>

theorem base_url_trailing_slashes_removed:
  assumes "load_config file s = (Return cfg, s1)"
  shows "\<exists>b n. environ s1 ''BASE_URL'' = Some b
           \<and> base_url cfg = py_rstrip ''/'' b
           \<and> b = base_url cfg @ replicate n (CHR ''/'')
           \<and> (base_url cfg = [] \<or> last (base_url cfg) \<noteq> CHR ''/'')
           \<and> (n \<le> 1 \<longrightarrow> base_url cfg = strip_one_slash b)
           \<and> url (build_request cfg) = base_url cfg @ ''/api/cron/sentiment-data''"
proof -
  note r = load_config_Return [OF assms]
  from r(2) obtain b where b: "environ s1 ''BASE_URL'' = Some b"
    by (cases "environ s1 ''BASE_URL''") auto
  with r(5) have base: "base_url cfg = py_rstrip ''/'' b"
    by simp
  from py_rstrip_char [of b "CHR ''/''"] base obtain n where
    n: "b = base_url cfg @ replicate n (CHR ''/'')"
    and l: "base_url cfg = [] \<or> last (base_url cfg) \<noteq> CHR ''/''"
    by auto
  have "n \<le> 1 \<longrightarrow> base_url cfg = strip_one_slash b"
    using strip_one_slash_agrees [OF n l] by simp
  moreover have "url (build_request cfg) = base_url cfg @ ''/api/cron/sentiment-data''"
    by (simp add: build_request_def endpoint_path_def)
  ultimately show ?thesis
    using b base n l by blast
qed

text \<open>The amended C5 on \<^verbatim>\<open>BASE_URL=http://example.com/\<close>.\<close>

theorem base_url_trailing_slashes_removed_witness:
  "url (build_request \<lparr>base_url = ''http://example.com'', cron_secret = ''secret'', timeout = 300\<rparr>) =
     ''http://example.com/api/cron/sentiment-data''
   \<and> ''http://example.com'' = strip_one_slash ''http://example.com/''"
proof -
  let ?s = "idle\<lparr>environ := example_environ\<rparr>"
  have a: "load_config None ?s =
             (Return \<lparr>base_url = ''http://example.com'', cron_secret = ''secret'', timeout = 300\<rparr>, ?s)"
    by (simp add: config_defs int_defs example_environ_def idle_def)
  from base_url_trailing_slashes_removed [OF a] show ?thesis
    by (auto simp add: strip_one_slash_def)
qed

subsection \<open>C6: a 200 response whose body is not JSON\<close>

text \<open>
  C6 fails on the code. The response has status 200 and an HTML body, and
  \<^verbatim>\<open>response.json()\<close> raises \<^verbatim>\<open>requests.exceptions.JSONDecodeError\<close>. That class is a
  \<^verbatim>\<open>RequestException\<close>, and the clause for \<^verbatim>\<open>RequestException\<close> (line 101) stands
  before the clause for \<^verbatim>\<open>json.JSONDecodeError\<close> (line 104): the fetch logs the
  generic \<^verbatim>\<open>Request failed\<close> line, not the parse failure line. It returns failure,
  and the run exits with status 1, as the claim says.
\<close>

theorem json_decode_error_reported_as_request_failure:
  "fetch_sentiment_data
     (always (Responds \<lparr>status_code = 200, text_body = ''<html>maintenance</html>'',
                         json = Inl (Exn RequestsJSONDecodeError
                                       ''Expecting value: line 1 column 1 (char 0)'')\<rparr>))
     example_config idle =
   (False,
    \<lparr>environ = Map.empty,
     log = [(INFO, StartingFetch ''http://example.com/api/cron/sentiment-data''),
            (INFO, ResponseStatus 200),
            (ERROR, RequestFailed (Exn RequestsJSONDecodeError
                                     ''Expecting value: line 1 column 1 (char 0)''))],
     sent = [example_request]\<rparr>)
   \<and> fst (main (example_world
          (Responds \<lparr>status_code = 200, text_body = ''<html>maintenance</html>'',
                      json = Inl (Exn RequestsJSONDecodeError
                                    ''Expecting value: line 1 column 1 (char 0)'')\<rparr>))) = 1"
  by (simp add: fetch_defs run_defs config_defs int_defs always_def example_world_def
      example_environ_def example_config_def idle_def example_request_def)

subsection \<open>C7: time-out and the single attempt\<close>



subsection \<open>C8: the time-out of the configuration\<close>

text \<open>
  C8, as stated, fails. The claim says that a supplied integer becomes the time-out
  whatever its size. With \<^verbatim>\<open>BASE_URL\<close> and \<^verbatim>\<open>CRON_SECRET\<close> set and \<^verbatim>\<open>REQUEST_TIMEOUT\<close>
  set to the decimal numeral of \<open>10 ^ 4300\<close> (a one and 4300 zeros, 4301 digits),
  \<^verbatim>\<open>int\<close> raises \<^verbatim>\<open>ValueError\<close> because the numeral exceeds the interpreter's limit of
  4300 digits: \<^verbatim>\<open>load_config\<close> returns no configuration, and the run exits with
  status 1.
\<close>

theorem C8_counterexample:
  "py_str (10 ^ 4300) = CHR ''1'' # replicate 4300 (CHR ''0'')
   \<and> load_config None
         (idle\<lparr>environ :=
                 example_environ(''REQUEST_TIMEOUT'' \<mapsto> CHR ''1'' # replicate 4300 (CHR ''0''))\<rparr>) =
       (Raise (Exn ValueError (CHR ''1'' # replicate 4300 (CHR ''0''))),
        idle\<lparr>environ :=
                 example_environ(''REQUEST_TIMEOUT'' \<mapsto> CHR ''1'' # replicate 4300 (CHR ''0''))\<rparr>)
   \<and> fst (main ((example_world (Responds \<lparr>status_code = 200, text_body = ''{}'',
                                            json = Inr (JObj [])\<rparr>))
                  \<lparr>os_environ :=
                     example_environ(''REQUEST_TIMEOUT'' \<mapsto> CHR ''1'' # replicate 4300 (CHR ''0''))\<rparr>)) = 1"
proof -
  let ?v = "CHR ''1'' # replicate 4300 (CHR ''0'')"
  let ?env = "example_environ(''REQUEST_TIMEOUT'' \<mapsto> ?v)"
  let ?w = "(example_world (Responds \<lparr>status_code = 200, text_body = ''{}'',
                                        json = Inr (JObj [])\<rparr>))\<lparr>os_environ := ?env\<rparr>"
  have 1: "py_str (10 ^ 4300) = ?v"
    by (rule py_str_power10)
  have "int_max_str_digits \<le> 4300"
    by (simp add: int_max_str_digits_def)
  then have v: "py_int ?v = Inl (Exn ValueError ?v)"
    by (rule py_int_power10_long)
  have rc: "required_config t = (Raise (Exn ValueError ?v), t)" if "environ t = ?env" for t
    using that v
    by (simp add: required_config_timeout getenv_default_def example_environ_def)
  have 2: "load_config None (idle\<lparr>environ := ?env\<rparr>) =
             (Raise (Exn ValueError ?v), idle\<lparr>environ := ?env\<rparr>)"
    by (simp add: load_config_def load_file_def rc)
  have "load_config (config_env ?w) (start_banner ?w) = (Raise (Exn ValueError ?v), start_banner ?w)"
    by (simp add: load_config_def load_file_def rc start_banner_simps example_world_def)
  then have 3: "fst (main ?w) = 1"
    by (simp add: main_raise_load)
  from 1 2 3 show ?thesis
    by (intro conjI)
qed

text \<open>
  C8, amended: a configuration that \<^verbatim>\<open>load_config\<close> returns has the time-out 300 when
  \<^verbatim>\<open>REQUEST_TIMEOUT\<close> is absent, and otherwise the integer that \<^verbatim>\<open>int\<close> reads from its
  value. When the file has been read without an exception and \<^verbatim>\<open>BASE_URL\<close> and
  \<^verbatim>\<open>CRON_SECRET\<close> are non-empty, \<^verbatim>\<open>load_config\<close> does return a configuration: with the
  time-out 300 when \<^verbatim>\<open>REQUEST_TIMEOUT\<close> is absent, with the time-out \<open>n\<close> when \<^verbatim>\<open>int\<close>
  reads \<open>n\<close> from its value, and in particular for the decimal numeral of every integer
  \<open>n\<close> of at most 4300 digits, zero and negative ones included: within the digit limit
  of the interpreter no range is checked. The one request of a run carries the time-out
  of the configuration as its \<^verbatim>\<open>timeout\<close> argument.
\<close>

theorem timeout_from_environment:
  "(load_config file s = (Return cfg, s1) \<longrightarrow>
      (environ s1 ''REQUEST_TIMEOUT'' = None \<longrightarrow> timeout cfg = 300)
      \<and> (\<forall>v. environ s1 ''REQUEST_TIMEOUT'' = Some v \<longrightarrow> py_int v = Inr (timeout cfg)))
   \<and> (\<forall>b c. load_file file s = (None, s1)
             \<and> environ s1 ''BASE_URL'' = Some b \<and> b \<noteq> []
             \<and> environ s1 ''CRON_SECRET'' = Some c \<and> c \<noteq> [] \<longrightarrow>
        (environ s1 ''REQUEST_TIMEOUT'' = None \<longrightarrow>
           load_config file s =
             (Return \<lparr>base_url = py_rstrip ''/'' b, cron_secret = c, timeout = 300\<rparr>, s1))
        \<and> (\<forall>v n. environ s1 ''REQUEST_TIMEOUT'' = Some v \<and> py_int v = Inr n \<longrightarrow>
              load_config file s =
                (Return \<lparr>base_url = py_rstrip ''/'' b, cron_secret = c, timeout = n\<rparr>, s1))
        \<and> (\<forall>n. \<bar>n\<bar> < 10 ^ 4300 \<and> environ s1 ''REQUEST_TIMEOUT'' = Some (py_str n) \<longrightarrow>
              load_config file s =
                (Return \<lparr>base_url = py_rstrip ''/'' b, cron_secret = c, timeout = n\<rparr>, s1)))
   \<and> (load_config (config_env w) (start_banner w) = (Return cfg', s') \<longrightarrow>
        map timeout_arg (sent (snd (main w))) = [timeout cfg'])"
proof (intro conjI impI allI)
  assume r: "load_config file s = (Return cfg, s1)"
  show "timeout cfg = 300" if "environ s1 ''REQUEST_TIMEOUT'' = None"
    using load_config_Return(4) [OF r] that by (simp add: getenv_default_def py_int_300)
  show "py_int v = Inr (timeout cfg)" if "environ s1 ''REQUEST_TIMEOUT'' = Some v" for v
    using load_config_Return(4) [OF r] that by (simp add: getenv_default_def)
next
  fix b c
  assume a: "load_file file s = (None, s1)
             \<and> environ s1 ''BASE_URL'' = Some b \<and> b \<noteq> []
             \<and> environ s1 ''CRON_SECRET'' = Some c \<and> c \<noteq> []"
  then have "load_file file s = (None, s1)"
    and "\<not> falsy (environ s1 ''BASE_URL'')" and "\<not> falsy (environ s1 ''CRON_SECRET'')"
    and "the (environ s1 ''BASE_URL'') = b" and "the (environ s1 ''CRON_SECRET'') = c"
    by simp_all
  then have lc: "load_config file s =
      (case py_int (getenv_default (environ s1) ''REQUEST_TIMEOUT'' ''300'') of
         Inl e \<Rightarrow> (Raise e, s1)
       | Inr t \<Rightarrow> (Return \<lparr>base_url = py_rstrip ''/'' b, cron_secret = c, timeout = t\<rparr>, s1))"
    by (simp add: load_config_by_file required_config_timeout split: sum.splits)
  show "load_config file s =
          (Return \<lparr>base_url = py_rstrip ''/'' b, cron_secret = c, timeout = 300\<rparr>, s1)"
    if "environ s1 ''REQUEST_TIMEOUT'' = None"
    using that by (simp add: lc getenv_default_def py_int_300)
  show "load_config file s =
          (Return \<lparr>base_url = py_rstrip ''/'' b, cron_secret = c, timeout = n\<rparr>, s1)"
    if "environ s1 ''REQUEST_TIMEOUT'' = Some v \<and> py_int v = Inr n" for v n
    using that by (simp add: lc getenv_default_def)
  show "load_config file s =
          (Return \<lparr>base_url = py_rstrip ''/'' b, cron_secret = c, timeout = n\<rparr>, s1)"
    if h: "\<bar>n\<bar> < 10 ^ 4300 \<and> environ s1 ''REQUEST_TIMEOUT'' = Some (py_str n)" for n
  proof -
    from h have "\<bar>n\<bar> < 10 ^ int_max_str_digits"
      by (simp only: int_max_str_digits_def)
    then have "py_int (py_str n) = Inr n"
      by (rule py_int_py_str)
    moreover from h have "environ s1 ''REQUEST_TIMEOUT'' = Some (py_str n)" ..
    ultimately show ?thesis
      by (simp add: lc getenv_default_def)
  qed
next
  assume "load_config (config_env w) (start_banner w) = (Return cfg', s')"
  then show "map timeout_arg (sent (snd (main w))) = [timeout cfg']"
    by (simp add: main_sent build_request_def)
qed

text \<open>The amended C8 on an environment without \<^verbatim>\<open>REQUEST_TIMEOUT\<close>, on one where it is
  \<^verbatim>\<open>-5\<close> between blanks, on one where it is the numeral of 0, and on a run with the
  second environment.\<close>

theorem timeout_from_environment_witness:
  "load_config None (idle\<lparr>environ := example_environ\<rparr>) =
     (Return \<lparr>base_url = ''http://example.com'', cron_secret = ''secret'', timeout = 300\<rparr>,
      idle\<lparr>environ := example_environ\<rparr>)
   \<and> load_config None (idle\<lparr>environ := example_environ(''REQUEST_TIMEOUT'' \<mapsto> '' -5 '')\<rparr>) =
       (Return \<lparr>base_url = ''http://example.com'', cron_secret = ''secret'', timeout = - 5\<rparr>,
        idle\<lparr>environ := example_environ(''REQUEST_TIMEOUT'' \<mapsto> '' -5 '')\<rparr>)
   \<and> load_config None (idle\<lparr>environ := example_environ(''REQUEST_TIMEOUT'' \<mapsto> py_str 0)\<rparr>) =
       (Return \<lparr>base_url = ''http://example.com'', cron_secret = ''secret'', timeout = 0\<rparr>,
        idle\<lparr>environ := example_environ(''REQUEST_TIMEOUT'' \<mapsto> py_str 0)\<rparr>)
   \<and> map timeout_arg
         (sent (snd (main ((example_world (Raises (Exn Timeout [])))
                            \<lparr>os_environ := example_environ(''REQUEST_TIMEOUT'' \<mapsto> '' -5 '')\<rparr>)))) =
       [- 5]"
proof -
  let ?b = "''http://example.com/''" and ?c = "''secret''"
  let ?s = "idle\<lparr>environ := example_environ\<rparr>"
  let ?t = "idle\<lparr>environ := example_environ(''REQUEST_TIMEOUT'' \<mapsto> '' -5 '')\<rparr>"
  let ?z = "idle\<lparr>environ := example_environ(''REQUEST_TIMEOUT'' \<mapsto> py_str 0)\<rparr>"
  let ?w = "(example_world (Raises (Exn Timeout [])))
              \<lparr>os_environ := example_environ(''REQUEST_TIMEOUT'' \<mapsto> '' -5 '')\<rparr>"
  have base: "py_rstrip ''/'' ?b = ''http://example.com''"
    by (simp add: py_rstrip_def)
  have five: "py_int '' -5 '' = Inr (- 5)"
    by (simp add: int_defs)
  have zero: "\<bar>0::int\<bar> < 10 ^ 4300"
    by (simp only: abs_zero zero_less_power zero_less_numeral)
  have hs: "load_file None ?s = (None, ?s)
            \<and> environ ?s ''BASE_URL'' = Some ?b \<and> ?b \<noteq> []
            \<and> environ ?s ''CRON_SECRET'' = Some ?c \<and> ?c \<noteq> []"
    and ns: "environ ?s ''REQUEST_TIMEOUT'' = None"
    by (simp_all add: load_file_def example_environ_def idle_def)
  have ht: "load_file None ?t = (None, ?t)
            \<and> environ ?t ''BASE_URL'' = Some ?b \<and> ?b \<noteq> []
            \<and> environ ?t ''CRON_SECRET'' = Some ?c \<and> ?c \<noteq> []"
    and nt: "environ ?t ''REQUEST_TIMEOUT'' = Some '' -5 ''"
    by (simp_all add: load_file_def example_environ_def idle_def)
  have hz: "load_file None ?z = (None, ?z)
            \<and> environ ?z ''BASE_URL'' = Some ?b \<and> ?b \<noteq> []
            \<and> environ ?z ''CRON_SECRET'' = Some ?c \<and> ?c \<noteq> []"
    and nz: "environ ?z ''REQUEST_TIMEOUT'' = Some (py_str 0)"
    by (simp_all add: load_file_def example_environ_def idle_def)
  have hw: "load_file (config_env ?w) (start_banner ?w) = (None, start_banner ?w)
            \<and> environ (start_banner ?w) ''BASE_URL'' = Some ?b \<and> ?b \<noteq> []
            \<and> environ (start_banner ?w) ''CRON_SECRET'' = Some ?c \<and> ?c \<noteq> []"
    and nw: "environ (start_banner ?w) ''REQUEST_TIMEOUT'' = Some '' -5 ''"
    by (simp_all add: load_file_def start_banner_simps example_world_def example_environ_def)
  note loaded = timeout_from_environment [THEN conjunct2, THEN conjunct1, rule_format]
  note posted = timeout_from_environment [THEN conjunct2, THEN conjunct2, rule_format]
  have 1: "load_config None ?s =
             (Return \<lparr>base_url = py_rstrip ''/'' ?b, cron_secret = ?c, timeout = 300\<rparr>, ?s)"
    by (rule loaded [OF hs, THEN conjunct1, rule_format, OF ns])
  have 2: "load_config None ?t =
             (Return \<lparr>base_url = py_rstrip ''/'' ?b, cron_secret = ?c, timeout = - 5\<rparr>, ?t)"
    by (rule loaded [OF ht, THEN conjunct2, THEN conjunct1, rule_format, OF conjI [OF nt five]])
  have 3: "load_config None ?z =
             (Return \<lparr>base_url = py_rstrip ''/'' ?b, cron_secret = ?c, timeout = 0\<rparr>, ?z)"
    by (rule loaded [OF hz, THEN conjunct2, THEN conjunct2, rule_format, OF conjI [OF zero nz]])
  have "load_config (config_env ?w) (start_banner ?w) =
          (Return \<lparr>base_url = py_rstrip ''/'' ?b, cron_secret = ?c, timeout = - 5\<rparr>, start_banner ?w)"
    by (rule loaded [OF hw, THEN conjunct2, THEN conjunct1, rule_format, OF conjI [OF nw five]])
  then have "map timeout_arg (sent (snd (main ?w))) =
          [timeout \<lparr>base_url = py_rstrip ''/'' ?b, cron_secret = ?c, timeout = - 5\<rparr>]"
    by (rule posted)
  then have 4: "map timeout_arg (sent (snd (main ?w))) = [- 5]"
    by simp
  from 1 2 3 4 show ?thesis
    by (simp only: base)
qed

subsection \<open>C9: a required variable is empty\<close>

text \<open>
  C9, as stated, fails, in two ways. With \<^verbatim>\<open>CRON_SECRET\<close> empty in the environment and
  a configuration file whose only line is \<^verbatim>\<open>=x\<close>, the assignment of line 45 raises
  \<^verbatim>\<open>OSError\<close> for the empty name before the checks are reached: the run logs a fatal
  error and exits with status 1, and no error about a missing variable is logged.
  And an empty variable is not treated exactly like an absent one: with the file line
  \<^verbatim>\<open>CRON_SECRET=from-file\<close>, the run with \<^verbatim>\<open>CRON_SECRET\<close> empty exits with status 1,
  while the run with \<^verbatim>\<open>CRON_SECRET\<close> absent takes the value of the file and, on a 200
  response with a JSON object, exits with status 0.
\<close>

theorem C9_counterexample:
  "main \<lparr>os_environ = [''BASE_URL'' \<mapsto> ''http://example.com'', ''CRON_SECRET'' \<mapsto> []],
         config_env = Some [''=x''],
         now = ''2025-01-01T09:00:00'',
         http_post = always (Raises (Exn Timeout []))\<rparr> =
     (1,
      \<lparr>environ = [''BASE_URL'' \<mapsto> ''http://example.com'', ''CRON_SECRET'' \<mapsto> []],
       log = [(INFO, Separator), (INFO, JobStarted), (INFO, CurrentTime ''2025-01-01T09:00:00''),
              (INFO, Separator), (INFO, LoadingConfig),
              (ERROR, FatalError (Exn OSError [])), (INFO, Separator)],
       sent = []\<rparr>)
   \<and> fst (main \<lparr>os_environ = [''BASE_URL'' \<mapsto> ''http://example.com'', ''CRON_SECRET'' \<mapsto> []],
                 config_env = Some [''CRON_SECRET=from-file''],
                 now = ''2025-01-01T09:00:00'',
                 http_post = always (Responds \<lparr>status_code = 200, text_body = ''{}'',
                                                 json = Inr (JObj [])\<rparr>)\<rparr>) = 1
   \<and> fst (main \<lparr>os_environ = [''BASE_URL'' \<mapsto> ''http://example.com''],
                 config_env = Some [''CRON_SECRET=from-file''],
                 now = ''2025-01-01T09:00:00'',
                 http_post = always (Responds \<lparr>status_code = 200, text_body = ''{}'',
                                                 json = Inr (JObj [])\<rparr>)\<rparr>) = 0"
  by (simp add: run_defs config_defs int_defs line_defs fetch_defs always_def Let_def)

text \<open>
  C9, amended: if \<^verbatim>\<open>BASE_URL\<close> or \<^verbatim>\<open>CRON_SECRET\<close> is set in the environment of the
  process to the empty string, the run exits with status 1 and sends no request. If
  moreover the configuration file is read without an exception, the variable is still
  empty afterwards (the file does not replace it, as it would supply an absent one),
  \<^verbatim>\<open>load_config\<close> logs the error for a required variable and exits with status 1, and
  the checks of lines 48 to 57 end and log exactly as they do when the variable is
  removed from the environment.
\<close>

theorem empty_required_variable_like_absent:
  assumes "k = ''BASE_URL'' \<or> k = ''CRON_SECRET''"
    and "os_environ w k = Some []"
  shows "fst (main w) = 1
       \<and> sent (snd (main w)) = []
       \<and> (\<forall>s1. load_file (config_env w) (start_banner w) = (None, s1) \<longrightarrow>
             environ s1 k = Some []
             \<and> load_config (config_env w) (start_banner w) =
                 (SystemExit 1,
                  logger_error (VarRequired (if falsy (environ s1 ''BASE_URL'')
                                             then ''BASE_URL'' else ''CRON_SECRET'')) s1)
             \<and> main w =
                 (1, logger_error (VarRequired (if falsy (environ s1 ''BASE_URL'')
                                                then ''BASE_URL'' else ''CRON_SECRET'')) s1)
             \<and> fst (required_config s1) =
                 fst (required_config (s1\<lparr>environ := (environ s1)(k := None)\<rparr>))
             \<and> log (snd (required_config s1)) =
                 log (snd (required_config (s1\<lparr>environ := (environ s1)(k := None)\<rparr>))))"
proof -
  have kept: "environ s1 k = Some []"
    if "load_file (config_env w) (start_banner w) = (None, s1)" for s1
    using load_file_keeps [of "start_banner w" k "[]" "config_env w"] assms(2) that
    by (simp add: start_banner_simps)
  have no: "load_config (config_env w) (start_banner w) \<noteq> (Return cfg, s1)" for cfg s1
  proof
    assume r: "load_config (config_env w) (start_banner w) = (Return cfg, s1)"
    from load_config_Return(1) [OF r] have "environ s1 k = Some []"
      by (rule kept)
    with load_config_Return(2,3) [OF r] assms(1) show False
      by auto
  qed
  have part: "environ s1 k = Some []
             \<and> load_config (config_env w) (start_banner w) =
                 (SystemExit 1,
                  logger_error (VarRequired (if falsy (environ s1 ''BASE_URL'')
                                             then ''BASE_URL'' else ''CRON_SECRET'')) s1)
             \<and> main w =
                 (1, logger_error (VarRequired (if falsy (environ s1 ''BASE_URL'')
                                                then ''BASE_URL'' else ''CRON_SECRET'')) s1)
             \<and> fst (required_config s1) =
                 fst (required_config (s1\<lparr>environ := (environ s1)(k := None)\<rparr>))
             \<and> log (snd (required_config s1)) =
                 log (snd (required_config (s1\<lparr>environ := (environ s1)(k := None)\<rparr>)))"
    if lf: "load_file (config_env w) (start_banner w) = (None, s1)" for s1
  proof -
    note k = kept [OF lf]
    with assms(1) have f: "falsy (environ s1 ''BASE_URL'') \<or> falsy (environ s1 ''CRON_SECRET'')"
      by auto
    then have lc: "load_config (config_env w) (start_banner w) =
        (SystemExit 1,
         logger_error
           (VarRequired (if falsy (environ s1 ''BASE_URL'') then ''BASE_URL'' else ''CRON_SECRET'')) s1)"
      using lf by (simp add: load_config_by_file required_config_missing)
    let ?s' = "s1\<lparr>environ := (environ s1)(k := None)\<rparr>"
    have same: "falsy (environ ?s' ''BASE_URL'') = falsy (environ s1 ''BASE_URL'')"
      using assms(1) k by auto
    have "falsy (environ ?s' ''BASE_URL'') \<or> falsy (environ ?s' ''CRON_SECRET'')"
      using assms(1) by auto
    from required_config_missing [OF this] required_config_missing [OF f] same
    have "fst (required_config s1) = fst (required_config ?s')"
      and "log (snd (required_config s1)) = log (snd (required_config ?s'))"
      by (simp_all add: logger_simps)
    with k lc show ?thesis
      by (simp add: main_exit_load [OF lc])
  qed
  from main_without_config [of w] no part show ?thesis
    by blast
qed

text \<open>The amended C9 on a run with an empty \<^verbatim>\<open>CRON_SECRET\<close> and a file that defines
  \<^verbatim>\<open>CRON_SECRET\<close>.\<close>

theorem empty_required_variable_like_absent_witness:
  "main \<lparr>os_environ = [''BASE_URL'' \<mapsto> ''http://example.com'', ''CRON_SECRET'' \<mapsto> []],
         config_env = Some [''CRON_SECRET=from-file''],
         now = ''2025-01-01T09:00:00'',
         http_post = always (Raises (Exn Timeout []))\<rparr> =
   (1,
    \<lparr>environ = [''BASE_URL'' \<mapsto> ''http://example.com'', ''CRON_SECRET'' \<mapsto> []],
     log = [(INFO, Separator), (INFO, JobStarted), (INFO, CurrentTime ''2025-01-01T09:00:00''),
            (INFO, Separator), (INFO, LoadingConfig),
            (ERROR, VarRequired ''CRON_SECRET'')],
     sent = []\<rparr>)"
proof -
  let ?w = "\<lparr>os_environ = [''BASE_URL'' \<mapsto> ''http://example.com'', ''CRON_SECRET'' \<mapsto> []],
         config_env = Some [''CRON_SECRET=from-file''],
         now = ''2025-01-01T09:00:00'',
         http_post = always (Raises (Exn Timeout []))\<rparr>"
  let ?s1 = "\<lparr>environ = [''BASE_URL'' \<mapsto> ''http://example.com'', ''CRON_SECRET'' \<mapsto> []],
     log = [(INFO, Separator), (INFO, JobStarted), (INFO, CurrentTime ''2025-01-01T09:00:00''),
            (INFO, Separator), (INFO, LoadingConfig)],
     sent = []\<rparr>"
  have a: "''CRON_SECRET'' = ''BASE_URL'' \<or> ''CRON_SECRET'' = ''CRON_SECRET''"
    by simp
  have b: "os_environ ?w ''CRON_SECRET'' = Some []"
    by simp
  have c: "load_file (config_env ?w) (start_banner ?w) = (None, ?s1)"
    by (simp add: load_file_def start_banner_def initial_def logger_info_def line_defs Let_def)
  from empty_required_variable_like_absent [OF a b] c
  have "main ?w =
          (1, logger_error (VarRequired (if falsy (environ ?s1 ''BASE_URL'')
                                         then ''BASE_URL'' else ''CRON_SECRET'')) ?s1)"
    by blast
  then show ?thesis
    by (simp add: logger_error_def)
qed

subsection \<open>C10: a time-out that is not an integer\<close>

text \<open>
  C10, as stated, fails. With \<^verbatim>\<open>REQUEST_TIMEOUT=abc\<close> and no \<^verbatim>\<open>BASE_URL\<close>, the check
  of \<^verbatim>\<open>BASE_URL\<close> comes first: \<^verbatim>\<open>load_config\<close> logs that \<^verbatim>\<open>BASE_URL\<close> is required
  and leaves through \<^verbatim>\<open>sys.exit(1)\<close>. The integer conversion is never reached, no
  exception is raised and no fatal error is logged.
\<close>

theorem C10_counterexample:
  "py_int ''abc'' = Inl (Exn ValueError ''abc'') \<and>
   main \<lparr>os_environ = [''REQUEST_TIMEOUT'' \<mapsto> ''abc''],
         config_env = None,
         now = ''2025-01-01T09:00:00'',
         http_post = always (Raises (Exn Timeout []))\<rparr> =
   (1,
    \<lparr>environ = [''REQUEST_TIMEOUT'' \<mapsto> ''abc''],
     log = [(INFO, Separator), (INFO, JobStarted), (INFO, CurrentTime ''2025-01-01T09:00:00''),
            (INFO, Separator), (ERROR, VarRequired ''BASE_URL'')],
     sent = []\<rparr>) \<and>
   fst (load_config None
          (start_banner \<lparr>os_environ = [''REQUEST_TIMEOUT'' \<mapsto> ''abc''],
                         config_env = None,
                         now = ''2025-01-01T09:00:00'',
                         http_post = always (Raises (Exn Timeout []))\<rparr>)) = SystemExit 1"
  by (simp add: run_defs config_defs int_defs logger_info_def logger_error_def)

text \<open>
  C10, amended: if \<^verbatim>\<open>REQUEST_TIMEOUT\<close> is set in the environment to a string that
  \<^verbatim>\<open>int\<close> rejects, the run exits with status 1 and sends no request; if moreover the
  configuration file is read without an exception and \<^verbatim>\<open>BASE_URL\<close> and
  \<^verbatim>\<open>CRON_SECRET\<close> are then non-empty, \<^verbatim>\<open>load_config\<close> raises the \<^verbatim>\<open>ValueError\<close> of
  the conversion, and \<^verbatim>\<open>main\<close> catches it, logs the fatal error and exits with
  status 1.
\<close>

theorem invalid_timeout_is_fatal:
  assumes "os_environ w ''REQUEST_TIMEOUT'' = Some v" and "py_int v = Inl e"
  shows "fst (main w) = 1
       \<and> sent (snd (main w)) = []
       \<and> (\<forall>s1. load_file (config_env w) (start_banner w) = (None, s1)
                 \<and> \<not> falsy (environ s1 ''BASE_URL'') \<and> \<not> falsy (environ s1 ''CRON_SECRET'') \<longrightarrow>
               load_config (config_env w) (start_banner w) = (Raise (Exn ValueError v), s1)
               \<and> main w = (1, logger_info Separator (logger_error (FatalError (Exn ValueError v)) s1)))"
proof -
  have e: "e = Exn ValueError v"
    using assms(2) by (simp add: py_int_def Let_def split: if_splits)
  have kept: "environ s1 ''REQUEST_TIMEOUT'' = Some v"
    if "load_file (config_env w) (start_banner w) = (None, s1)" for s1
    using load_file_keeps [of "start_banner w" "''REQUEST_TIMEOUT''" v "config_env w"] assms(1) that
    by (simp add: start_banner_simps)
  have no: "load_config (config_env w) (start_banner w) \<noteq> (Return cfg, s1)" for cfg s1
  proof
    assume r: "load_config (config_env w) (start_banner w) = (Return cfg, s1)"
    from load_config_Return(1) [OF r] have "environ s1 ''REQUEST_TIMEOUT'' = Some v"
      by (rule kept)
    with load_config_Return(4) [OF r] assms(2) show False
      by (simp add: getenv_default_def)
  qed
  have raise: "load_config (config_env w) (start_banner w) = (Raise (Exn ValueError v), s1)"
    if "load_file (config_env w) (start_banner w) = (None, s1)"
      and "\<not> falsy (environ s1 ''BASE_URL'')" and "\<not> falsy (environ s1 ''CRON_SECRET'')" for s1
    using that kept [OF that(1)] assms(2) e
    by (simp add: load_config_by_file required_config_timeout getenv_default_def)
  from main_without_config [of w] no raise show ?thesis
    by (auto simp: main_raise_load)
qed

text \<open>The amended C10 on a run with \<^verbatim>\<open>REQUEST_TIMEOUT\<close> set to the empty string.\<close>

theorem invalid_timeout_is_fatal_witness:
  "main \<lparr>os_environ = [''BASE_URL'' \<mapsto> ''http://example.com'', ''CRON_SECRET'' \<mapsto> ''secret'',
                       ''REQUEST_TIMEOUT'' \<mapsto> []],
         config_env = None,
         now = ''2025-01-01T09:00:00'',
         http_post = always (Raises (Exn Timeout []))\<rparr> =
   (1,
    \<lparr>environ = [''BASE_URL'' \<mapsto> ''http://example.com'', ''CRON_SECRET'' \<mapsto> ''secret'',
                 ''REQUEST_TIMEOUT'' \<mapsto> []],
     log = [(INFO, Separator), (INFO, JobStarted), (INFO, CurrentTime ''2025-01-01T09:00:00''),
            (INFO, Separator), (ERROR, FatalError (Exn ValueError [])), (INFO, Separator)],
     sent = []\<rparr>)"
proof -
  let ?w = "\<lparr>os_environ = [''BASE_URL'' \<mapsto> ''http://example.com'', ''CRON_SECRET'' \<mapsto> ''secret'',
                       ''REQUEST_TIMEOUT'' \<mapsto> []],
         config_env = None,
         now = ''2025-01-01T09:00:00'',
         http_post = always (Raises (Exn Timeout []))\<rparr>"
  have a: "os_environ ?w ''REQUEST_TIMEOUT'' = Some []"
    by simp
  have b: "py_int [] = Inl (Exn ValueError [])"
    by (simp add: int_defs)
  have c: "load_file (config_env ?w) (start_banner ?w) = (None, start_banner ?w)
           \<and> \<not> falsy (environ (start_banner ?w) ''BASE_URL'')
           \<and> \<not> falsy (environ (start_banner ?w) ''CRON_SECRET'')"
    by (simp add: load_file_def start_banner_simps)
  from invalid_timeout_is_fatal [OF a b] c show ?thesis
    by (simp add: start_banner_def initial_def logger_info_def logger_error_def)
qed

end
